theory Spec2Isabelle
  imports Complex_Main "HOL-Library.Log_Nat"
begin

section \<open>JavaScript numbers\<close>

text \<open>
  A JavaScript number is an IEEE 754 double. The finite doubles are real numbers, and a
  number is modelled as a real; every arithmetic operation of the source computes the
  exact result and rounds it to the nearest double, ties to the even significand.
  \<open>fl\<close> is that rounding: 53 significant bits, with the exponent of the last bit no
  smaller than -1074, where the subnormal numbers lie. A result beyond the largest
  double, which JavaScript turns into an infinity, and \<^verbatim>\<open>NaN\<close> are outside the model.
\<close>

definition round_even :: "real \<Rightarrow> int" where
  "round_even q =
     (let r = \<lfloor>q\<rfloor>; f = q - of_int r
      in if f < 1/2 then r else if 1/2 < f then r + 1 else if even r then r else r + 1)"

text \<open>The exponent of the leading bit of a positive number.\<close>

definition msb :: "real \<Rightarrow> int" where
  "msb a =
     (if 1 \<le> a then bitlen \<lfloor>a\<rfloor> - 1
      else (let k = bitlen \<lfloor>1 / a\<rfloor> - 1 in if a * 2 powi k = 1 then - k else - k - 1))"

definition fl :: "real \<Rightarrow> real" where
  "fl x =
     (if x = 0 then 0
      else (let a = \<bar>x\<bar>; e = max (msb a - 52) (- 1074); m = round_even (a / 2 powi e)
            in sgn x * of_int m * 2 powi e))"

definition js_add :: "real \<Rightarrow> real \<Rightarrow> real" where
  "js_add a b = fl (a + b)"

definition js_sub :: "real \<Rightarrow> real \<Rightarrow> real" where
  "js_sub a b = fl (a - b)"

definition js_mul :: "real \<Rightarrow> real \<Rightarrow> real" where
  "js_mul a b = fl (a * b)"

text \<open>\<^verbatim>\<open>Math.PI\<close> is the double nearest to \<open>\<pi>\<close>.\<close>

definition Math_PI :: real where
  "Math_PI = fl pi"

section \<open>The 2D drawing surface\<close>

text \<open>
  The renderer draws on a \<^verbatim>\<open>CanvasRenderingContext2D\<close>. The part of it that the
  renderer touches is modelled here: the drawing state that \<^verbatim>\<open>save\<close> pushes and
  \<^verbatim>\<open>restore\<close> pops, the current path (which is not part of the saved state) and the
  log of the draw calls emitted so far, each with the drawing state it was emitted under.
  Colour and font strings are opaque and taken to be valid CSS values. The transform is
  kept as the exact composition of the translations and rotations applied to it.
\<close>

type_synonym matrix = "real \<times> real \<times> real \<times> real \<times> real \<times> real"

record gstate =
  transform :: matrix
  strokeStyle :: string
  fillStyle :: string
  ctx_font :: string
  globalAlpha :: real
  lineWidth :: real

text \<open>
  A text handed to \<^verbatim>\<open>fillText\<close> is a concatenation of string literals and of values
  converted to strings; the pieces are kept apart, so that no number formatting has to be
  modelled. \<open>Fixed v n\<close> stands for \<^verbatim>\<open>v.toFixed(n)\<close>.
\<close>

datatype piece = Str string | Num real | Bool bool | Fixed real nat

type_synonym jstext = "piece list"

datatype pathop =
    MoveTo matrix real real
  | LineTo matrix real real
  | Arc matrix real real real real real
  | ClosePath

datatype draw =
    FillText jstext real real gstate
  | FillRect real real real real gstate
  | StrokeRect real real real real gstate
  | Fill "pathop list" gstate
  | Stroke "pathop list" gstate

record canvas_ctx =
  cur :: gstate
  stack :: "gstate list"
  path :: "pathop list"
  calls :: "draw list"

datatype error = TypeError | IndexSizeError

definition save :: "canvas_ctx \<Rightarrow> canvas_ctx" where
  "save c = c\<lparr>stack := cur c # stack c\<rparr>"

definition restore :: "canvas_ctx \<Rightarrow> canvas_ctx" where
  "restore c = (case stack c of [] \<Rightarrow> c | g # gs \<Rightarrow> c\<lparr>cur := g, stack := gs\<rparr>)"

definition setTransform :: "matrix \<Rightarrow> canvas_ctx \<Rightarrow> canvas_ctx" where
  "setTransform m c = c\<lparr>cur := (cur c)\<lparr>transform := m\<rparr>\<rparr>"

definition translate :: "real \<Rightarrow> real \<Rightarrow> canvas_ctx \<Rightarrow> canvas_ctx" where
  "translate x y c =
     (case transform (cur c) of (a, b, c', d, e, f) \<Rightarrow>
        c\<lparr>cur := (cur c)\<lparr>transform := (a, b, c', d, a * x + c' * y + e, b * x + d * y + f)\<rparr>\<rparr>)"

text \<open>\<open>rotate_ctx None\<close> is \<^verbatim>\<open>rotate(NaN)\<close>, which the canvas ignores.\<close>

definition rotate_ctx :: "real option \<Rightarrow> canvas_ctx \<Rightarrow> canvas_ctx" where
  "rotate_ctx angle c =
     (case angle of
        None \<Rightarrow> c
      | Some t \<Rightarrow>
         (case transform (cur c) of (a, b, c', d, e, f) \<Rightarrow>
            c\<lparr>cur := (cur c)\<lparr>transform :=
                 (a * cos t + c' * sin t, b * cos t + d * sin t,
                  c' * cos t - a * sin t, d * cos t - b * sin t, e, f)\<rparr>\<rparr>))"

definition set_strokeStyle :: "string \<Rightarrow> canvas_ctx \<Rightarrow> canvas_ctx" where
  "set_strokeStyle s c = c\<lparr>cur := (cur c)\<lparr>strokeStyle := s\<rparr>\<rparr>"

text \<open>Assigning \<^verbatim>\<open>undefined\<close> (\<open>None\<close>) to \<^verbatim>\<open>fillStyle\<close> is ignored by the canvas.\<close>

definition set_fillStyle :: "string option \<Rightarrow> canvas_ctx \<Rightarrow> canvas_ctx" where
  "set_fillStyle s c = (case s of None \<Rightarrow> c | Some v \<Rightarrow> c\<lparr>cur := (cur c)\<lparr>fillStyle := v\<rparr>\<rparr>)"

definition set_font :: "string \<Rightarrow> canvas_ctx \<Rightarrow> canvas_ctx" where
  "set_font s c = c\<lparr>cur := (cur c)\<lparr>ctx_font := s\<rparr>\<rparr>"

text \<open>The canvas ignores an alpha outside \<open>[0, 1]\<close>.\<close>

definition set_globalAlpha :: "real \<Rightarrow> canvas_ctx \<Rightarrow> canvas_ctx" where
  "set_globalAlpha a c = (if 0 \<le> a \<and> a \<le> 1 then c\<lparr>cur := (cur c)\<lparr>globalAlpha := a\<rparr>\<rparr> else c)"

definition set_lineWidth :: "real \<Rightarrow> canvas_ctx \<Rightarrow> canvas_ctx" where
  "set_lineWidth w c = (if 0 < w then c\<lparr>cur := (cur c)\<lparr>lineWidth := w\<rparr>\<rparr> else c)"

definition fillText :: "jstext \<Rightarrow> real \<Rightarrow> real \<Rightarrow> canvas_ctx \<Rightarrow> canvas_ctx" where
  "fillText t x y c = c\<lparr>calls := calls c @ [FillText t x y (cur c)]\<rparr>"

definition fillRect :: "real \<Rightarrow> real \<Rightarrow> real \<Rightarrow> real \<Rightarrow> canvas_ctx \<Rightarrow> canvas_ctx" where
  "fillRect x y w h c = c\<lparr>calls := calls c @ [FillRect x y w h (cur c)]\<rparr>"

definition strokeRect :: "real \<Rightarrow> real \<Rightarrow> real \<Rightarrow> real \<Rightarrow> canvas_ctx \<Rightarrow> canvas_ctx" where
  "strokeRect x y w h c = c\<lparr>calls := calls c @ [StrokeRect x y w h (cur c)]\<rparr>"

definition beginPath :: "canvas_ctx \<Rightarrow> canvas_ctx" where
  "beginPath c = c\<lparr>path := []\<rparr>"

definition moveTo :: "real \<Rightarrow> real \<Rightarrow> canvas_ctx \<Rightarrow> canvas_ctx" where
  "moveTo x y c = c\<lparr>path := path c @ [MoveTo (transform (cur c)) x y]\<rparr>"

definition lineTo :: "real \<Rightarrow> real \<Rightarrow> canvas_ctx \<Rightarrow> canvas_ctx" where
  "lineTo x y c = c\<lparr>path := path c @ [LineTo (transform (cur c)) x y]\<rparr>"

text \<open>\<^verbatim>\<open>arc\<close> throws an \<^verbatim>\<open>IndexSizeError\<close> on a negative radius.\<close>

definition arc :: "real \<Rightarrow> real \<Rightarrow> real \<Rightarrow> real \<Rightarrow> real \<Rightarrow> canvas_ctx \<Rightarrow> error + canvas_ctx" where
  "arc x y r a0 a1 c =
     (if r < 0 then Inl IndexSizeError
      else Inr (c\<lparr>path := path c @ [Arc (transform (cur c)) x y r a0 a1]\<rparr>))"

definition closePath :: "canvas_ctx \<Rightarrow> canvas_ctx" where
  "closePath c = c\<lparr>path := path c @ [ClosePath]\<rparr>"

definition fill :: "canvas_ctx \<Rightarrow> canvas_ctx" where
  "fill c = c\<lparr>calls := calls c @ [Fill (path c) (cur c)]\<rparr>"

definition stroke :: "canvas_ctx \<Rightarrow> canvas_ctx" where
  "stroke c = c\<lparr>calls := calls c @ [Stroke (path c) (cur c)]\<rparr>"

text \<open>What \<^verbatim>\<open>getContext('2d')\<close> returns for a new canvas.\<close>

definition fresh_context :: canvas_ctx where
  "fresh_context =
     \<lparr>cur = \<lparr>transform = (1, 0, 0, 1, 0, 0), strokeStyle = ''#000000'', fillStyle = ''#000000'',
             ctx_font = ''10px sans-serif'', globalAlpha = 1, lineWidth = 1\<rparr>,
      stack = [], path = [], calls = []\<rparr>"

section \<open>The host engine and the renderer's state\<close>

datatype render_type = CANVAS | WEBGL

record input_manager =
  in_x :: real
  in_y :: real
  in_worldX :: real
  in_worldY :: real
  in_scale_x :: real
  in_activePointer :: "(real \<times> real) option"

text \<open>
  The fields of \<^verbatim>\<open>this.game\<close> that the renderer reads. \<open>p2px\<close> and \<open>p2pxi\<close> are the
  unit conversions \<^verbatim>\<open>game.math.p2px\<close> and \<^verbatim>\<open>game.math.p2pxi\<close> of the host, which
  are not part of this file and are taken as parameters; \<open>in_activePointer\<close> holds
  \<^verbatim>\<open>screenX\<close> and \<^verbatim>\<open>screenY\<close> of \<^verbatim>\<open>game.input.activePointer\<close>, \<open>None\<close> when
  there is no active pointer.
\<close>

record game =
  renderType :: render_type
  game_context :: "canvas_ctx option"
  p2px :: "real \<Rightarrow> real"
  p2pxi :: "real \<Rightarrow> real"
  camera_view_x :: real
  camera_view_y :: real
  game_input :: input_manager
  isSoundReady :: "string \<Rightarrow> bool"

text \<open>
  The instance fields. \<open>context2d\<close> is \<^verbatim>\<open>this.context\<close> (\<open>None\<close> for \<^verbatim>\<open>null\<close>),
  \<open>sprite\<close> tells whether \<^verbatim>\<open>this.sprite\<close> is set, \<open>currentColor\<close> is undefined
  (\<open>None\<close>) until the first \<^verbatim>\<open>start\<close>, and \<open>uploads\<close> counts the calls of
  \<^verbatim>\<open>PIXI.updateWebGLTexture\<close>.
\<close>

record debug =
  game :: game
  sprite :: bool
  context2d :: "canvas_ctx option"
  font :: string
  columnWidth :: real
  lineHeight :: real
  renderShadow :: bool
  currentX :: real
  currentY :: real
  currentAlpha :: real
  currentColor :: "string option"
  uploads :: nat

definition Debug_new :: "game \<Rightarrow> debug" where
  "Debug_new g =
     (let d = \<lparr>game = g, sprite = False, context2d = None, font = ''14px Courier'',
                columnWidth = 100, lineHeight = 16, renderShadow = True,
                currentX = 0, currentY = 0, currentAlpha = 1, currentColor = None,
                uploads = 0\<rparr>
      in if renderType g = CANVAS then d\<lparr>context2d := game_context g\<rparr>
         else d\<lparr>context2d :=
                  Some (fillRect 0 0 400 400 (set_fillStyle (Some ''#ff0000'') fresh_context)),
                sprite := True\<rparr>)"

section \<open>The bracket: start and stop\<close>

text \<open>\<^verbatim>\<open>v || dflt\<close> on an optional string: undefined and the empty string are falsy.\<close>

definition js_or :: "string option \<Rightarrow> string \<Rightarrow> string" where
  "js_or v dflt = (case v of None \<Rightarrow> dflt | Some s \<Rightarrow> if s = [] then dflt else s)"

text \<open>The value of an optional number argument that defaults to 0.\<close>

definition num_or_0 :: "real option \<Rightarrow> real" where
  "num_or_0 v = (case v of None \<Rightarrow> 0 | Some n \<Rightarrow> n)"

definition start :: "real option \<Rightarrow> real option \<Rightarrow> string option \<Rightarrow> real option \<Rightarrow> debug \<Rightarrow> debug" where
  "start x y color cw d =
     (case context2d d of
        None \<Rightarrow> d
      | Some c \<Rightarrow>
         (let x = num_or_0 x;
              y = num_or_0 y;
              color = js_or color ''rgb(255,255,255)'';
              cw = num_or_0 cw;
              d = d\<lparr>currentX := x, currentY := y, currentColor := Some color,
                    currentAlpha := globalAlpha (cur c), columnWidth := cw\<rparr>;
              c = save c;
              c = setTransform (1, 0, 0, 1, 0, 0) c;
              c = set_strokeStyle color c;
              c = set_fillStyle (Some color) c;
              c = set_font (font d) c;
              c = set_globalAlpha 1 c
          in d\<lparr>context2d := Some c\<rparr>))"

definition stop :: "debug \<Rightarrow> error + debug" where
  "stop d =
     (case context2d d of
        None \<Rightarrow> Inl TypeError
      | Some c \<Rightarrow>
         (let c = restore c;
              c = set_globalAlpha (currentAlpha d) c
          in if sprite d
             then Inr (d\<lparr>context2d := Some (fillRect 0 0 400 400 (set_fillStyle (Some ''#ff0000'') c)),
                        uploads := Suc (uploads d)\<rparr>)
             else Inr (d\<lparr>context2d := Some c\<rparr>)))"

section \<open>Text layout: line and splitline\<close>

definition line :: "jstext \<Rightarrow> real option \<Rightarrow> real option \<Rightarrow> debug \<Rightarrow> debug" where
  "line t x y d =
     (case context2d d of
        None \<Rightarrow> d
      | Some c \<Rightarrow>
         (let d = (case x of None \<Rightarrow> d | Some v \<Rightarrow> d\<lparr>currentX := v\<rparr>);
              d = (case y of None \<Rightarrow> d | Some v \<Rightarrow> d\<lparr>currentY := v\<rparr>);
              c = (if renderShadow d
                   then set_fillStyle (currentColor d)
                          (fillText t (js_add (currentX d) 1) (js_add (currentY d) 1)
                             (set_fillStyle (Some ''rgb(0,0,0)'') c))
                   else c);
              c = fillText t (currentX d) (currentY d) c
          in d\<lparr>context2d := Some c, currentY := js_add (currentY d) (lineHeight d)\<rparr>))"

text \<open>The loop of \<^verbatim>\<open>splitline\<close> over its arguments; \<open>x\<close> is the local variable.\<close>

fun splitline_loop :: "jstext list \<Rightarrow> real \<Rightarrow> debug \<Rightarrow> canvas_ctx \<Rightarrow> canvas_ctx" where
  "splitline_loop [] x d c = c"
| "splitline_loop (a # as) x d c =
     (let c = (if renderShadow d
               then set_fillStyle (currentColor d)
                      (fillText a (js_add x 1) (js_add (currentY d) 1)
                         (set_fillStyle (Some ''rgb(0,0,0)'') c))
               else c);
          c = fillText a x (currentY d) c
      in splitline_loop as (js_add x (columnWidth d)) d c)"

definition splitline :: "jstext list \<Rightarrow> debug \<Rightarrow> debug" where
  "splitline args d =
     (case context2d d of
        None \<Rightarrow> d
      | Some c \<Rightarrow>
         d\<lparr>context2d := Some (splitline_loop args (currentX d) d c),
           currentY := js_add (currentY d) (lineHeight d)\<rparr>)"

section \<open>Sequencing statements that may throw\<close>

definition ret :: "(debug \<Rightarrow> debug) \<Rightarrow> debug \<Rightarrow> error + debug" where
  "ret f d = Inr (f d)"

text \<open>A call \<^verbatim>\<open>this.context.f(...)\<close>: a \<^verbatim>\<open>TypeError\<close> when the context is null.\<close>

definition on_context :: "(canvas_ctx \<Rightarrow> canvas_ctx) \<Rightarrow> debug \<Rightarrow> error + debug" where
  "on_context f d =
     (case context2d d of None \<Rightarrow> Inl TypeError | Some c \<Rightarrow> Inr (d\<lparr>context2d := Some (f c)\<rparr>))"

definition on_context_try :: "(canvas_ctx \<Rightarrow> error + canvas_ctx) \<Rightarrow> debug \<Rightarrow> error + debug" where
  "on_context_try f d =
     (case context2d d of
        None \<Rightarrow> Inl TypeError
      | Some c \<Rightarrow> (case f c of Inl e \<Rightarrow> Inl e | Inr c' \<Rightarrow> Inr (d\<lparr>context2d := Some c'\<rparr>)))"

text \<open>A statement list: the first statement that throws ends it.\<close>

fun steps :: "(debug \<Rightarrow> error + debug) list \<Rightarrow> debug \<Rightarrow> error + debug" where
  "steps [] d = Inr d"
| "steps (f # fs) d = (case f d of Inl e \<Rightarrow> Inl e | Inr d' \<Rightarrow> steps fs d')"

section \<open>The shape renderers\<close>

text \<open>
  The four shape renderers take the fields of the shape they are written for. \<open>offset\<close>
  and \<open>angle\<close> are the entries of \<^verbatim>\<open>shapeOffsets\<close> and \<^verbatim>\<open>shapeAngles\<close>, \<open>None\<close>
  for an undefined entry: reading \<^verbatim>\<open>offset[0]\<close> then throws a \<^verbatim>\<open>TypeError\<close>, and
  \<^verbatim>\<open>bodyAngle + angle\<close> is \<^verbatim>\<open>NaN\<close>. None of them tests the context for null.
\<close>

definition add_angle :: "real \<Rightarrow> real option \<Rightarrow> real option" where
  "add_angle bodyAngle angle =
     (case angle of None \<Rightarrow> None | Some a \<Rightarrow> Some (js_add bodyAngle a))"

text \<open>
  The path of a vertex list, shared by the rectangle and the convex renderer: a
  \<^verbatim>\<open>moveTo\<close> to \<^verbatim>\<open>points[0]\<close>, which throws a \<^verbatim>\<open>TypeError\<close> when the list is empty,
  and a \<^verbatim>\<open>lineTo\<close> for each further vertex.
\<close>

fun lineTo_loop :: "game \<Rightarrow> (real \<times> real) list \<Rightarrow> canvas_ctx \<Rightarrow> canvas_ctx" where
  "lineTo_loop g [] c = c"
| "lineTo_loop g (p # ps) c = lineTo_loop g ps (lineTo (p2pxi g (fst p)) (p2pxi g (snd p)) c)"

definition polygon_path :: "game \<Rightarrow> (real \<times> real) list \<Rightarrow> canvas_ctx \<Rightarrow> error + canvas_ctx" where
  "polygon_path g points c =
     (case points of
        [] \<Rightarrow> Inl TypeError
      | p # ps \<Rightarrow> Inr (lineTo_loop g ps (moveTo (p2pxi g (fst p)) (p2pxi g (snd p)) c)))"

definition renderShapeRectangle ::
  "real \<Rightarrow> real \<Rightarrow> real \<Rightarrow> real \<Rightarrow> real \<Rightarrow> (real \<times> real) list \<Rightarrow> (real \<times> real) option \<Rightarrow> real option
     \<Rightarrow> debug \<Rightarrow> error + debug" where
  "renderShapeRectangle x y bodyAngle width height points offset angle d =
     (let g = game d; w = p2px g width; h = p2px g height in
      case offset of
        None \<Rightarrow> steps [on_context beginPath, on_context save, (\<lambda>d. Inl TypeError)] d
      | Some off \<Rightarrow>
         steps [on_context beginPath,
                on_context save,
                on_context (translate (js_add x (p2pxi g (fst off))) (js_add y (p2pxi g (snd off)))),
                on_context (rotate_ctx (add_angle bodyAngle angle)),
                on_context_try (polygon_path g points),
                on_context closePath,
                on_context stroke,
                on_context restore] d)"

definition renderShapeLine ::
  "real \<Rightarrow> real \<Rightarrow> real \<Rightarrow> real \<Rightarrow> (real \<times> real) option \<Rightarrow> real option \<Rightarrow> debug \<Rightarrow> error + debug" where
  "renderShapeLine x y bodyAngle len offset angle d =
     steps [on_context beginPath,
            on_context save,
            on_context (translate x y),
            on_context (rotate_ctx (add_angle bodyAngle angle)),
            on_context (set_lineWidth 0.5),
            on_context (moveTo 0 0),
            on_context (lineTo (p2px (game d) len) 0),
            on_context closePath,
            on_context stroke,
            on_context restore] d"

definition renderShapeConvex ::
  "real \<Rightarrow> real \<Rightarrow> real \<Rightarrow> (real \<times> real) list \<Rightarrow> (real \<times> real) option \<Rightarrow> real option
     \<Rightarrow> debug \<Rightarrow> error + debug" where
  "renderShapeConvex x y bodyAngle points offset angle d =
     (let g = game d in
      case offset of
        None \<Rightarrow> steps [on_context beginPath, on_context save, (\<lambda>d. Inl TypeError)] d
      | Some off \<Rightarrow>
         steps [on_context beginPath,
                on_context save,
                on_context (translate (js_add x (p2pxi g (fst off))) (js_add y (p2pxi g (snd off)))),
                on_context (rotate_ctx (add_angle bodyAngle angle)),
                on_context_try (polygon_path g points),
                on_context closePath,
                on_context stroke,
                on_context restore] d)"

definition renderShapeCircle ::
  "real \<Rightarrow> real \<Rightarrow> real \<Rightarrow> real \<Rightarrow> (real \<times> real) option \<Rightarrow> real option \<Rightarrow> debug \<Rightarrow> error + debug" where
  "renderShapeCircle x y bodyAngle radius offset angle d =
     (let g = game d in
      case offset of
        None \<Rightarrow> steps [on_context beginPath, on_context save, (\<lambda>d. Inl TypeError)] d
      | Some off \<Rightarrow>
         steps [on_context beginPath,
                on_context save,
                on_context (translate (js_add x (p2pxi g (fst off))) (js_add y (p2pxi g (snd off)))),
                on_context_try (arc 0 0 (p2px g radius) 0 (js_mul Math_PI 2)),
                on_context closePath,
                on_context stroke,
                on_context restore] d)"

section \<open>Rendering a physics body\<close>

text \<open>
  The shapes of a body, by the class the source tests with \<^verbatim>\<open>instanceof\<close>; a shape of
  any other class (a plane, a particle, a capsule) is \<open>OtherShape\<close>.
\<close>

datatype shape =
    Rectangle real real "(real \<times> real) list"
  | Line real
  | Convex "(real \<times> real) list"
  | Circle real
  | OtherShape

record body_data =
  shapes :: "shape list"
  shapeOffsets :: "(real \<times> real) list"
  shapeAngles :: "real list"
  bd_position :: "real \<times> real"
  bd_angle :: real

text \<open>Reading \<^verbatim>\<open>a[i]\<close>: undefined outside the array.\<close>

definition js_index :: "'a list \<Rightarrow> nat \<Rightarrow> 'a option" where
  "js_index xs i = (if i < length xs then Some (xs ! i) else None)"

definition renderShape :: "real \<Rightarrow> real \<Rightarrow> real \<Rightarrow> body_data \<Rightarrow> nat \<Rightarrow> debug \<Rightarrow> error + debug" where
  "renderShape x y angle b i d =
     (let offset = js_index (shapeOffsets b) i; a = js_index (shapeAngles b) i in
      case shapes b ! i of
        Rectangle w h points \<Rightarrow> renderShapeRectangle x y angle w h points offset a d
      | Line len \<Rightarrow> renderShapeLine x y angle len offset a d
      | Convex points \<Rightarrow> renderShapeConvex x y angle points offset a d
      | Circle r \<Rightarrow> renderShapeCircle x y angle r offset a d
      | OtherShape \<Rightarrow> Inr d)"

text \<open>The loop \<^verbatim>\<open>while (i--)\<close>: from the last shape down to the first.\<close>

fun renderShapes :: "nat \<Rightarrow> real \<Rightarrow> real \<Rightarrow> real \<Rightarrow> body_data \<Rightarrow> debug \<Rightarrow> error + debug" where
  "renderShapes 0 x y angle b d = Inr d"
| "renderShapes (Suc i) x y angle b d =
     (case renderShape x y angle b i d of
        Inl e \<Rightarrow> Inl e
      | Inr d' \<Rightarrow> renderShapes i x y angle b d')"

definition renderPhysicsBody :: "body_data option \<Rightarrow> string option \<Rightarrow> debug \<Rightarrow> error + debug" where
  "renderPhysicsBody body color d =
     (if context2d d = None then Inr d
      else
        (let color = js_or color ''rgb(255,255,255)'';
             d = start (Some 0) (Some 0) (Some color) None d
         in case body of
              None \<Rightarrow> Inl TypeError
            | Some b \<Rightarrow>
               (let g = game d;
                    x = js_sub (p2pxi g (fst (bd_position b))) (camera_view_x g);
                    y = js_sub (p2pxi g (snd (bd_position b))) (camera_view_y g)
                in steps [renderShapes (length (shapes b)) x y (bd_angle b) b, stop] d)))"

section \<open>The snapshots handed to the formatters\<close>

text \<open>
  Each record holds the fields that the renderer reads from the object. A field that holds
  an object which may be null is an option; the result of a getter method is a field.
\<close>

record point =
  pt_x :: real
  pt_y :: real

record rectangle =
  rect_x :: real
  rect_y :: real
  rect_width :: real
  rect_height :: real

record circle =
  circle_x :: real
  circle_y :: real
  circle_radius :: real

record geom_line =
  line_start :: point
  line_end :: point
  line_length :: real
  line_angle :: real

record marker =
  marker_start :: real
  marker_stop :: real

record sound =
  snd_key :: string
  snd_touchLocked :: bool
  snd_pendingPlayback :: bool
  snd_isDecoded :: bool
  snd_isDecoding :: bool
  snd_totalDuration :: real
  snd_isPlaying :: bool
  snd_currentTime :: real
  snd_volume :: real
  snd_mute :: bool
  snd_usingWebAudio :: bool
  snd_usingAudioTag :: bool
  snd_currentMarker :: string
  snd_duration :: real
  snd_markers :: "string \<rightharpoonup> marker"
  snd_position :: real

record camera =
  cam_width :: real
  cam_height :: real
  cam_x :: real
  cam_y :: real
  cam_bounds :: "rectangle option"
  cam_view :: rectangle

record pointer =
  ptr_isUp :: bool
  ptr_isDown :: bool
  ptr_x :: real
  ptr_y :: real
  ptr_circle_radius :: real
  ptr_active :: bool
  ptr_positionDown :: point
  ptr_position :: point
  ptr_id :: real
  ptr_worldX :: real
  ptr_worldY :: real
  ptr_duration :: real

record input_handler =
  ih_pointerX :: real
  ih_pointerY :: real
  ih_pointerOver :: bool
  ih_overDuration :: real
  ih_pointerDown :: bool
  ih_downDuration :: real
  ih_justOver :: bool
  ih_justOut :: bool

record sprite_snapshot =
  spr_width :: real
  spr_height :: real
  spr_x :: real
  spr_y :: real
  spr_angle :: real
  spr_rotation :: real
  spr_visible :: bool
  spr_inCamera :: bool
  spr_anchor :: point
  spr_name :: string
  spr_position :: point
  spr_world :: point
  spr_input :: "input_handler option"
  spr_body :: "point option"
  spr_getBounds :: rectangle

record key =
  key_keyCode :: real
  key_isDown :: bool
  key_justPressed :: bool
  key_justReleased :: bool
  key_timeDown :: real
  key_duration :: real

section \<open>The formatters\<close>

text \<open>
  Every formatter returns at once when the context is null, except \<open>renderSpriteBounds\<close>,
  which first calls \<^verbatim>\<open>sprite.getBounds()\<close>. A null snapshot is dereferenced after
  \<^verbatim>\<open>start\<close> has run; the state that an exception leaves behind is not kept in the
  result, so the test for null is written in front of the statement list. Only
  \<open>renderPointer\<close> tests its snapshot for null itself.
\<close>

definition renderSoundInfo ::
  "sound option \<Rightarrow> real option \<Rightarrow> real option \<Rightarrow> string option \<Rightarrow> debug \<Rightarrow> error + debug" where
  "renderSoundInfo sound x y color d =
     (if context2d d = None then Inr d
      else
        (let color = js_or color ''rgb(255,255,255)'' in
         case sound of
           None \<Rightarrow> Inl TypeError
         | Some s \<Rightarrow>
            steps
              [ret (start x y (Some color) None),
               ret (line [Str ''Sound: '', Str (snd_key s), Str '' Locked: '', Bool (snd_touchLocked s)] None None),
               ret (line [Str ''Is Ready?: '', Bool (isSoundReady (game d) (snd_key s)),
                          Str '' Pending Playback: '', Bool (snd_pendingPlayback s)] None None),
               ret (line [Str ''Decoded: '', Bool (snd_isDecoded s), Str '' Decoding: '', Bool (snd_isDecoding s)] None None),
               ret (line [Str ''Total Duration: '', Num (snd_totalDuration s), Str '' Playing: '', Bool (snd_isPlaying s)] None None),
               ret (line [Str ''Time: '', Num (snd_currentTime s)] None None),
               ret (line [Str ''Volume: '', Num (snd_volume s), Str '' Muted: '', Bool (snd_mute s)] None None),
               ret (line [Str ''WebAudio: '', Bool (snd_usingWebAudio s), Str '' Audio: '', Bool (snd_usingAudioTag s)] None None),
               (\<lambda>d. if snd_currentMarker s \<noteq> []
                    then (case snd_markers s (snd_currentMarker s) of
                            None \<Rightarrow>
                              steps [ret (line [Str ''Marker: '', Str (snd_currentMarker s),
                                                Str '' Duration: '', Num (snd_duration s)] None None),
                                     (\<lambda>d. Inl TypeError)] d
                          | Some m \<Rightarrow>
                              steps [ret (line [Str ''Marker: '', Str (snd_currentMarker s),
                                                Str '' Duration: '', Num (snd_duration s)] None None),
                                     ret (line [Str ''Start: '', Num (marker_start m),
                                                Str '' Stop: '', Num (marker_stop m)] None None),
                                     ret (line [Str ''Position: '', Num (snd_position s)] None None)] d)
                    else Inr d),
               stop] d))"

definition renderCameraInfo ::
  "camera option \<Rightarrow> real option \<Rightarrow> real option \<Rightarrow> string option \<Rightarrow> debug \<Rightarrow> error + debug" where
  "renderCameraInfo cam x y color d =
     (if context2d d = None then Inr d
      else
        (let color = js_or color ''rgb(255,255,255)'' in
         case cam of
           None \<Rightarrow> Inl TypeError
         | Some c \<Rightarrow>
            (case cam_bounds c of
               None \<Rightarrow> Inl TypeError
             | Some b \<Rightarrow>
                steps
                  [ret (start x y (Some color) None),
                   ret (line [Str ''Camera ('', Num (cam_width c), Str '' x '', Num (cam_height c), Str '')''] None None),
                   ret (line [Str ''X: '', Num (cam_x c), Str '' Y: '', Num (cam_y c)] None None),
                   ret (line [Str ''Bounds x: '', Num (rect_x b), Str '' Y: '', Num (rect_y b),
                              Str '' w: '', Num (rect_width b), Str '' h: '', Num (rect_height b)] None None),
                   ret (line [Str ''View x: '', Num (rect_x (cam_view c)), Str '' Y: '', Num (rect_y (cam_view c)),
                              Str '' w: '', Num (rect_width (cam_view c)),
                              Str '' h: '', Num (rect_height (cam_view c))] None None),
                   stop] d)))"

definition renderPointer ::
  "pointer option \<Rightarrow> bool option \<Rightarrow> string option \<Rightarrow> string option \<Rightarrow> string option \<Rightarrow> debug
     \<Rightarrow> error + debug" where
  "renderPointer ptr hideIfUp downColor upColor color d =
     (if context2d d = None \<or> ptr = None then Inr d
      else case ptr of None \<Rightarrow> Inr d | Some p \<Rightarrow>
        (let hideIfUp = (case hideIfUp of None \<Rightarrow> False | Some h \<Rightarrow> h);
             downColor = js_or downColor ''rgba(0,255,0,0.5)'';
             upColor = js_or upColor ''rgba(255,0,0,0.5)'';
             color = js_or color ''rgb(255,255,255)''
         in if hideIfUp \<and> ptr_isUp p then Inr d
            else
              steps
                [ret (start (Some (ptr_x p)) (Some (js_sub (ptr_y p) 100)) (Some color) None),
                 on_context beginPath,
                 on_context_try (arc (ptr_x p) (ptr_y p) (ptr_circle_radius p) 0 (js_mul Math_PI 2)),
                 on_context (set_fillStyle (Some (if ptr_active p then downColor else upColor))),
                 on_context fill,
                 on_context closePath,
                 on_context beginPath,
                 on_context (moveTo (pt_x (ptr_positionDown p)) (pt_y (ptr_positionDown p))),
                 on_context (lineTo (pt_x (ptr_position p)) (pt_y (ptr_position p))),
                 on_context (set_lineWidth 2),
                 on_context stroke,
                 on_context closePath,
                 ret (line [Str ''ID: '', Num (ptr_id p), Str '' Active: '', Bool (ptr_active p)] None None),
                 ret (line [Str ''World X: '', Num (ptr_worldX p), Str '' World Y: '', Num (ptr_worldY p)] None None),
                 ret (line [Str ''Screen X: '', Num (ptr_x p), Str '' Screen Y: '', Num (ptr_y p)] None None),
                 ret (line [Str ''Duration: '', Num (ptr_duration p), Str '' ms''] None None),
                 ret (line [Str ''is Down: '', Bool (ptr_isDown p), Str '' is Up: '', Bool (ptr_isUp p)] None None),
                 stop] d))"

definition renderSpriteInputInfo ::
  "sprite_snapshot option \<Rightarrow> real option \<Rightarrow> real option \<Rightarrow> string option \<Rightarrow> debug \<Rightarrow> error + debug" where
  "renderSpriteInputInfo spr x y color d =
     (if context2d d = None then Inr d
      else
        (let color = js_or color ''rgb(255,255,255)'' in
         case spr of
           None \<Rightarrow> Inl TypeError
         | Some s \<Rightarrow>
            (case spr_input s of
               None \<Rightarrow> Inl TypeError
             | Some i \<Rightarrow>
                steps
                  [ret (start x y (Some color) None),
                   ret (line [Str ''Sprite Input: ('', Num (spr_width s), Str '' x '', Num (spr_height s), Str '')''] None None),
                   ret (line [Str ''x: '', Fixed (ih_pointerX i) 1, Str '' y: '', Fixed (ih_pointerY i) 1] None None),
                   ret (line [Str ''over: '', Bool (ih_pointerOver i), Str '' duration: '', Fixed (ih_overDuration i) 0] None None),
                   ret (line [Str ''down: '', Bool (ih_pointerDown i), Str '' duration: '', Fixed (ih_downDuration i) 0] None None),
                   ret (line [Str ''just over: '', Bool (ih_justOver i), Str '' just out: '', Bool (ih_justOut i)] None None),
                   stop] d)))"

definition renderKey ::
  "key option \<Rightarrow> real option \<Rightarrow> real option \<Rightarrow> string option \<Rightarrow> debug \<Rightarrow> error + debug" where
  "renderKey k x y color d =
     (if context2d d = None then Inr d
      else
        (let color = js_or color ''rgb(255,255,255)'' in
         case k of
           None \<Rightarrow> Inl TypeError
         | Some k \<Rightarrow>
            steps
              [ret (start x y (Some color) (Some 150)),
               ret (splitline [[Str ''Key:''], [Num (key_keyCode k)], [Str ''isDown:''], [Bool (key_isDown k)]]),
               ret (splitline [[Str ''justPressed:''], [Bool (key_justPressed k)],
                               [Str ''justReleased:''], [Bool (key_justReleased k)]]),
               ret (splitline [[Str ''Time Down:''], [Fixed (key_timeDown k) 0],
                               [Str ''duration:''], [Fixed (key_duration k) 0]]),
               stop] d))"

definition renderInputInfo :: "real option \<Rightarrow> real option \<Rightarrow> string option \<Rightarrow> debug \<Rightarrow> error + debug" where
  "renderInputInfo x y color d =
     (if context2d d = None then Inr d
      else
        (let color = js_or color ''rgb(255,255,0)''; i = game_input (game d) in
         case in_activePointer i of
           None \<Rightarrow> Inl TypeError
         | Some ap \<Rightarrow>
            steps
              [ret (start x y (Some color) None),
               ret (line [Str ''Input''] None None),
               ret (line [Str ''X: '', Num (in_x i), Str '' Y: '', Num (in_y i)] None None),
               ret (line [Str ''World X: '', Num (in_worldX i), Str '' World Y: '', Num (in_worldY i)] None None),
               ret (line [Str ''Scale X: '', Fixed (in_scale_x i) 1, Str '' Scale Y: '', Fixed (in_scale_x i) 1] None None),
               ret (line [Str ''Screen X: '', Num (fst ap), Str '' Screen Y: '', Num (snd ap)] None None),
               stop] d))"

definition renderRectangle ::
  "rectangle option \<Rightarrow> string option \<Rightarrow> bool option \<Rightarrow> debug \<Rightarrow> error + debug" where
  "renderRectangle rect color filled d =
     (if context2d d = None then Inr d
      else
        (let filled = (case filled of None \<Rightarrow> True | Some f \<Rightarrow> f);
             color = js_or color ''rgba(0,255,0,0.3)''
         in case rect of
              None \<Rightarrow> Inl TypeError
            | Some r \<Rightarrow>
               steps
                 [ret (start None None None None),
                  (if filled
                   then steps [on_context (set_fillStyle (Some color)),
                               on_context (fillRect (rect_x r) (rect_y r) (rect_width r) (rect_height r))]
                   else steps [on_context (set_strokeStyle color),
                               on_context (strokeRect (rect_x r) (rect_y r) (rect_width r) (rect_height r))]),
                  stop] d))"

definition renderSpriteBounds ::
  "sprite_snapshot option \<Rightarrow> string option \<Rightarrow> bool option \<Rightarrow> debug \<Rightarrow> error + debug" where
  "renderSpriteBounds spr color filled d =
     (case spr of
        None \<Rightarrow> Inl TypeError
      | Some s \<Rightarrow> renderRectangle (Some (spr_getBounds s)) color filled d)"

definition renderSpriteInfo ::
  "sprite_snapshot option \<Rightarrow> real option \<Rightarrow> real option \<Rightarrow> string option \<Rightarrow> debug \<Rightarrow> error + debug" where
  "renderSpriteInfo spr x y color d =
     (if context2d d = None then Inr d
      else
        (let color = js_or color ''rgb(255, 255, 255)'' in
         case spr of
           None \<Rightarrow> Inl TypeError
         | Some s \<Rightarrow>
            steps
              [ret (start x y (Some color) None),
               ret (line [Str ''Sprite: '', Str '' ('', Num (spr_width s), Str '' x '', Num (spr_height s),
                          Str '') anchor: '', Num (pt_x (spr_anchor s)), Str '' x '', Num (pt_y (spr_anchor s))] None None),
               ret (line [Str ''x: '', Fixed (spr_x s) 1, Str '' y: '', Fixed (spr_y s) 1] None None),
               ret (line [Str ''angle: '', Fixed (spr_angle s) 1, Str '' rotation: '', Fixed (spr_rotation s) 1] None None),
               ret (line [Str ''visible: '', Bool (spr_visible s), Str '' in camera: '', Bool (spr_inCamera s)] None None),
               stop] d))"

definition renderSpriteCoords ::
  "sprite_snapshot option \<Rightarrow> real option \<Rightarrow> real option \<Rightarrow> string option \<Rightarrow> debug \<Rightarrow> error + debug" where
  "renderSpriteCoords spr x y color d =
     (if context2d d = None then Inr d
      else
        (let color = js_or color ''rgb(255, 255, 255)'' in
         case spr of
           None \<Rightarrow> Inl TypeError
         | Some s \<Rightarrow>
            steps
              [ret (start x y (Some color) (Some 100)),
               (if spr_name s \<noteq> [] then ret (line [Str (spr_name s)] None None) else Inr),
               ret (splitline [[Str ''x:''], [Fixed (spr_x s) 2], [Str ''y:''], [Fixed (spr_y s) 2]]),
               ret (splitline [[Str ''pos x:''], [Fixed (pt_x (spr_position s)) 2],
                               [Str ''pos y:''], [Fixed (pt_y (spr_position s)) 2]]),
               ret (splitline [[Str ''world x:''], [Fixed (pt_x (spr_world s)) 2],
                               [Str ''world y:''], [Fixed (pt_y (spr_world s)) 2]]),
               stop] d))"

definition renderLine :: "geom_line option \<Rightarrow> string option \<Rightarrow> debug \<Rightarrow> error + debug" where
  "renderLine gl color d =
     (if context2d d = None then Inr d
      else
        (let color = js_or color ''rgb(255, 255, 255)'' in
         case gl of
           None \<Rightarrow> Inl TypeError
         | Some l \<Rightarrow>
            steps
              [ret (start (Some 0) (Some 0) (Some color) None),
               on_context (set_lineWidth 1),
               on_context beginPath,
               on_context (moveTo (js_add (pt_x (line_start l)) 0.5) (js_add (pt_y (line_start l)) 0.5)),
               on_context (lineTo (js_add (pt_x (line_end l)) 0.5) (js_add (pt_y (line_end l)) 0.5)),
               on_context closePath,
               on_context stroke,
               stop] d))"

definition renderLineInfo ::
  "geom_line option \<Rightarrow> real option \<Rightarrow> real option \<Rightarrow> string option \<Rightarrow> debug \<Rightarrow> error + debug" where
  "renderLineInfo gl x y color d =
     (if context2d d = None then Inr d
      else
        (let color = js_or color ''rgb(255, 255, 255)'' in
         case gl of
           None \<Rightarrow> Inl TypeError
         | Some l \<Rightarrow>
            steps
              [ret (start x y (Some color) (Some 80)),
               ret (splitline [[Str ''start.x:''], [Fixed (pt_x (line_start l)) 2],
                               [Str ''start.y:''], [Fixed (pt_y (line_start l)) 2]]),
               ret (splitline [[Str ''end.x:''], [Fixed (pt_x (line_end l)) 2],
                               [Str ''end.y:''], [Fixed (pt_y (line_end l)) 2]]),
               ret (splitline [[Str ''length:''], [Fixed (line_length l) 2],
                               [Str ''angle:''], [Num (line_angle l)]]),
               stop] d))"

definition renderPointInfo ::
  "point option \<Rightarrow> real option \<Rightarrow> real option \<Rightarrow> string option \<Rightarrow> debug \<Rightarrow> error + debug" where
  "renderPointInfo pnt x y color d =
     (if context2d d = None then Inr d
      else
        (let color = js_or color ''rgb(255, 255, 255)'' in
         case pnt of
           None \<Rightarrow> Inl TypeError
         | Some p \<Rightarrow>
            steps
              [ret (start x y (Some color) None),
               ret (line [Str ''px: '', Fixed (pt_x p) 1, Str '' py: '', Fixed (pt_y p) 1] None None),
               stop] d))"

definition renderPixel :: "real \<Rightarrow> real \<Rightarrow> string option \<Rightarrow> debug \<Rightarrow> error + debug" where
  "renderPixel x y color d =
     (if context2d d = None then Inr d
      else
        (let color = js_or color ''rgba(0,255,0,1)'' in
         steps
           [ret (start None None None None),
            on_context (set_fillStyle (Some color)),
            on_context (fillRect x y 2 2),
            stop] d))"

definition renderPoint :: "point option \<Rightarrow> string option \<Rightarrow> debug \<Rightarrow> error + debug" where
  "renderPoint pnt color d =
     (if context2d d = None then Inr d
      else
        (let color = js_or color ''rgba(0,255,0,1)'' in
         case pnt of
           None \<Rightarrow> Inl TypeError
         | Some p \<Rightarrow>
            steps
              [ret (start None None None None),
               on_context (set_fillStyle (Some color)),
               on_context (fillRect (pt_x p) (pt_y p) 4 4),
               stop] d))"

definition renderCircle :: "circle option \<Rightarrow> string option \<Rightarrow> debug \<Rightarrow> error + debug" where
  "renderCircle circ color d =
     (if context2d d = None then Inr d
      else
        (let color = js_or color ''rgba(0,255,0,0.3)'' in
         case circ of
           None \<Rightarrow> Inl TypeError
         | Some ci \<Rightarrow>
            steps
              [ret (start None None None None),
               on_context beginPath,
               on_context (set_fillStyle (Some color)),
               on_context_try (arc (circle_x ci) (circle_y ci) (circle_radius ci) 0 (js_mul Math_PI 2)),
               on_context fill,
               on_context closePath,
               stop] d))"

definition renderText ::
  "jstext \<Rightarrow> real \<Rightarrow> real \<Rightarrow> string option \<Rightarrow> string option \<Rightarrow> debug \<Rightarrow> error + debug" where
  "renderText t x y color fnt d =
     (if context2d d = None then Inr d
      else
        (let color = js_or color ''rgb(255,255,255)'';
             fnt = js_or fnt ''16px Courier''
         in steps
              [ret (start None None None None),
               on_context (set_font fnt),
               on_context (set_fillStyle (Some color)),
               on_context (fillText t x y),
               stop] d))"

definition renderBodyInfo ::
  "sprite_snapshot option \<Rightarrow> real option \<Rightarrow> real option \<Rightarrow> string option \<Rightarrow> debug \<Rightarrow> error + debug" where
  "renderBodyInfo spr x y color d =
     (if context2d d = None then Inr d
      else
        (let color = js_or color ''rgb(255,255,255)'' in
         case spr of
           None \<Rightarrow> Inl TypeError
         | Some s \<Rightarrow>
            (case spr_body s of
               None \<Rightarrow> Inl TypeError
             | Some b \<Rightarrow>
                steps
                  [ret (start x y (Some color) (Some 210)),
                   ret (splitline [[Str ''x: '', Fixed (pt_x b) 2], [Str ''y: '', Fixed (pt_y b) 2],
                                   [Str ''width: '', Num (spr_width s)], [Str ''height: '', Num (spr_height s)]]),
                   stop] d)))"

section \<open>Notions used in the statements\<close>

text \<open>
  The text draws of one \<^verbatim>\<open>line\<close> call or of one fragment of \<^verbatim>\<open>splitline\<close> at
  \<open>(x, y)\<close>, under the drawing state \<open>g\<close> and with the bracket's colour \<open>col\<close>: with
  shadows, a black draw at \<^verbatim>\<open>(x + 1, y + 1)\<close> and then the draw in the bracket's colour;
  without, a single draw in the state as it is.
\<close>

definition text_draws :: "bool \<Rightarrow> gstate \<Rightarrow> string \<Rightarrow> jstext \<Rightarrow> real \<Rightarrow> real \<Rightarrow> draw list" where
  "text_draws shadow g col t x y =
     (if shadow
      then [FillText t (js_add x 1) (js_add y 1) (g\<lparr>fillStyle := ''rgb(0,0,0)''\<rparr>),
            FillText t x y (g\<lparr>fillStyle := col\<rparr>)]
      else [FillText t x y g])"


text \<open>A sequence of text emissions, with or without position arguments.\<close>

datatype emission = EmitLine jstext "real option" "real option" | EmitSplitline "jstext list"

fun emit :: "emission \<Rightarrow> debug \<Rightarrow> debug" where
  "emit (EmitLine t x y) d = line t x y d"
| "emit (EmitSplitline fs) d = splitline fs d"

fun emit_all :: "emission list \<Rightarrow> debug \<Rightarrow> debug" where
  "emit_all [] d = d"
| "emit_all (e # es) d = emit_all es (emit e d)"

text \<open>
  Calls of the bracket protocol in which every \<^verbatim>\<open>start\<close> omits its \<^verbatim>\<open>columnWidth\<close>
  argument.
\<close>

datatype call =
    StartCall "real option" "real option" "string option"
  | LineCall jstext "real option" "real option"
  | SplitlineCall "jstext list"
  | StopCall

fun run_call :: "call \<Rightarrow> debug \<Rightarrow> error + debug" where
  "run_call (StartCall x y color) d = Inr (start x y color None d)"
| "run_call (LineCall t x y) d = Inr (line t x y d)"
| "run_call (SplitlineCall fs) d = Inr (splitline fs d)"
| "run_call StopCall d = stop d"

text \<open>
  A shape that the shape renderers draw without an exception: a vertex list has a first
  vertex and the radius handed to \<^verbatim>\<open>arc\<close> is not negative. A body is well formed when
  all its shapes are and it has an offset for each of them.
\<close>

fun wf_shape :: "game \<Rightarrow> shape \<Rightarrow> bool" where
  "wf_shape g (Rectangle w h points) = (points \<noteq> [])"
| "wf_shape g (Convex points) = (points \<noteq> [])"
| "wf_shape g (Circle r) = (0 \<le> p2px g r)"
| "wf_shape g (Line len) = True"
| "wf_shape g OtherShape = True"

definition wf_body :: "game \<Rightarrow> body_data \<Rightarrow> bool" where
  "wf_body g b = (list_all (wf_shape g) (shapes b) \<and> length (shapes b) \<le> length (shapeOffsets b))"

definition drawn_shapes :: "shape list \<Rightarrow> nat" where
  "drawn_shapes ss = length (filter (\<lambda>s. s \<noteq> OtherShape) ss)"

text \<open>
  Two hosts for the examples: one in canvas mode that hands over a new context, one in
  WebGL mode. Both convert physics units with the factors 20 and -20.
\<close>

definition example_input :: input_manager where
  "example_input =
     \<lparr>in_x = 0, in_y = 0, in_worldX = 0, in_worldY = 0, in_scale_x = 1,
      in_activePointer = Some (0, 0)\<rparr>"

definition canvas_game :: game where
  "canvas_game =
     \<lparr>renderType = CANVAS, game_context = Some fresh_context,
      p2px = (\<lambda>v. js_mul v 20), p2pxi = (\<lambda>v. js_mul v (- 20)),
      camera_view_x = 0, camera_view_y = 0, game_input = example_input,
      isSoundReady = (\<lambda>k. True)\<rparr>"

definition webgl_game :: game where
  "webgl_game = canvas_game\<lparr>renderType := WEBGL, game_context := None\<rparr>"

text \<open>A host in canvas mode whose context is null.\<close>

definition contextless_game :: game where
  "contextless_game = canvas_game\<lparr>game_context := None\<rparr>"

text \<open>A body with a rectangle, a shape of another class, a circle and a line.\<close>

definition example_body :: body_data where
  "example_body =
     \<lparr>shapes = [Rectangle 1 1 [(0, 0), (1, 0), (1, 1), (0, 1)], OtherShape, Circle 1, Line 2],
      shapeOffsets = [(0, 0), (0, 0), (1, 0), (1, 0)],
      shapeAngles = [0, 0, 0, 0],
      bd_position = (1, 2), bd_angle = 0\<rparr>"

section \<open>Numbers that additions do not round\<close>

lemma round_even_of_int: "round_even (of_int j) = j"
  by (simp add: round_even_def)

lemma fl_exact:
  assumes "x \<noteq> 0" and "\<bar>x\<bar> / 2 powi (max (msb \<bar>x\<bar> - 52) (- 1074)) = of_int j"
  shows "fl x = x"
proof -
  let ?e = "max (msb \<bar>x\<bar> - 52) (- 1074)"
  have p: "(2::real) powi ?e \<noteq> 0"
    by simp
  have "fl x = sgn x * of_int (round_even (\<bar>x\<bar> / 2 powi ?e)) * 2 powi ?e"
    using assms(1) by (simp add: fl_def Let_def)
  also have "\<dots> = sgn x * (\<bar>x\<bar> / 2 powi ?e) * 2 powi ?e"
    unfolding assms(2) round_even_of_int ..
  also have "\<dots> = sgn x * \<bar>x\<bar>"
    using p by simp
  also have "\<dots> = x"
    by (simp add: sgn_mult_abs)
  finally show ?thesis .
qed

lemma div_powi_neg:
  assumes "p \<le> 52"
  shows "of_int n / (2::real) powi (p - 52) = of_int (n * 2 ^ nat (52 - p))"
proof -
  have "(2::real) powi (p - 52) = inverse (2 powi (52 - p))"
    using power_int_minus[of "2::real" "52 - p"] by simp
  also have "(2::real) powi (52 - p) = 2 ^ nat (52 - p)"
    using assms by (simp add: power_int_def)
  finally show ?thesis
    by (simp add: field_simps)
qed

lemma msb_of_int: "0 < n \<Longrightarrow> msb (of_int n) = bitlen n - 1"
  by (simp add: msb_def)

lemma fl_int:
  assumes "x \<in> \<int>" and "\<bar>x\<bar> \<le> 9007199254740992"
  shows "fl x = x"
proof (cases "x = 0")
  case True
  then show ?thesis by (simp add: fl_def)
next
  case False
  from assms(1) obtain k where k: "x = of_int k"
    by (auto elim: Ints_cases)
  let ?n = "\<bar>k\<bar>"
  have n: "0 < ?n" "\<bar>x\<bar> = of_int ?n" "?n \<le> 2 ^ 53"
    using False assms(2) by (simp_all add: k flip: of_int_abs)
  let ?p = "bitlen ?n - 1"
  have m: "msb (of_int ?n) = ?p"
    by (rule msb_of_int[OF n(1)])
  from bitlen_bounds[OF n(1)] have b: "2 ^ nat ?p \<le> ?n" "?n < 2 ^ nat (bitlen ?n)"
    by simp_all
  have p0: "0 \<le> ?p"
    using n(1) bitlen_eq_zero_iff[of ?n] bitlen_nonneg[of ?n] by linarith
  have h: "(2::int) ^ nat ?p \<le> 2 ^ 53"
    using b(1) n(3) by linarith
  have "nat ?p \<le> 53"
    by (rule power_le_imp_le_exp[of "2::int", OF _ h]) simp
  then have p53: "?p \<le> 53"
    by linarith
  have e: "max (?p - 52) (- 1074) = ?p - 52"
    using p0 by simp
  show ?thesis
  proof (cases "?p \<le> 52")
    case True
    have "\<bar>x\<bar> / 2 powi (max (msb \<bar>x\<bar> - 52) (- 1074)) = of_int (?n * 2 ^ nat (52 - ?p))"
      unfolding m e n(2) by (rule div_powi_neg[OF True])
    then show ?thesis
      by (rule fl_exact[OF \<open>x \<noteq> 0\<close>])
  next
    case False
    then have p: "?p = 53"
      using p53 by linarith
    from b(1) n(3) have n53: "?n = 2 ^ 53"
      unfolding p by simp
    have q0: "max (msb (of_int ?n) - 52) (- 1074) = 1"
      unfolding m p by simp
    have "real_of_int ?n / 2 powi 1 = of_int (2 ^ 52)"
      unfolding n53 by simp
    then have "\<bar>x\<bar> / 2 powi (max (msb \<bar>x\<bar> - 52) (- 1074)) = of_int (2 ^ 52)"
      unfolding n(2) q0 .
    then show ?thesis
      by (rule fl_exact[OF \<open>x \<noteq> 0\<close>])
  qed
qed


section \<open>Basic facts about the bracket and the text layout\<close>

lemma concat_map_upt_Suc:
  "concat (map f [0..<Suc n]) = f 0 @ concat (map (\<lambda>i. f (Suc i)) [0..<n])"
  by (simp only: map_upt_Suc concat.simps)

lemma start_Some:
  assumes "context2d d = Some c"
  shows "start x y color cw d =
    d\<lparr>currentX := num_or_0 x, currentY := num_or_0 y,
      currentColor := Some (js_or color ''rgb(255,255,255)''),
      currentAlpha := globalAlpha (cur c), columnWidth := num_or_0 cw,
      context2d := Some (c\<lparr>cur := \<lparr>transform = (1, 0, 0, 1, 0, 0),
                                    strokeStyle = js_or color ''rgb(255,255,255)'',
                                    fillStyle = js_or color ''rgb(255,255,255)'',
                                    ctx_font = font d, globalAlpha = 1,
                                    lineWidth = lineWidth (cur c)\<rparr>,
                           stack := cur c # stack c\<rparr>)\<rparr>"
  using assms
  by (simp add: start_def Let_def save_def setTransform_def set_strokeStyle_def
      set_fillStyle_def set_font_def set_globalAlpha_def)

lemma start_None: "context2d d = None \<Longrightarrow> start x y color cw d = d"
  by (simp add: start_def)

lemma line_Some:
  assumes "context2d d = Some c" "currentColor d = Some col"
  shows "line t x y d =
    d\<lparr>currentX := (case x of None \<Rightarrow> currentX d | Some v \<Rightarrow> v),
      currentY := js_add (case y of None \<Rightarrow> currentY d | Some v \<Rightarrow> v) (lineHeight d),
      context2d := Some (c\<lparr>cur := (if renderShadow d then (cur c)\<lparr>fillStyle := col\<rparr> else cur c),
                           calls := calls c @ text_draws (renderShadow d) (cur c) col t
                              (case x of None \<Rightarrow> currentX d | Some v \<Rightarrow> v)
                              (case y of None \<Rightarrow> currentY d | Some v \<Rightarrow> v)\<rparr>)\<rparr>"
  using assms
  by (cases x; cases y)
     (simp_all add: line_def text_draws_def set_fillStyle_def fillText_def Let_def)



section \<open>The line cursor\<close>


lemma Debug_new_canvas:
  "Debug_new canvas_game =
     \<lparr>game = canvas_game, sprite = False, context2d = Some fresh_context, font = ''14px Courier'',
      columnWidth = 100, lineHeight = 16, renderShadow = True,
      currentX = 0, currentY = 0, currentAlpha = 1, currentColor = None, uploads = 0\<rparr>"
  by (simp add: Debug_new_def canvas_game_def)





lemma splitline_loop_Some:
  assumes "currentColor d = Some col"
  shows "splitline_loop fs x d c =
    c\<lparr>cur := (if renderShadow d \<and> fs \<noteq> [] then (cur c)\<lparr>fillStyle := col\<rparr> else cur c),
      calls := calls c @ concat (map (\<lambda>i.
         text_draws (renderShadow d) (cur c) col (fs ! i)
           (((\<lambda>v. js_add v (columnWidth d)) ^^ i) x) (currentY d))
         [0..<length fs])\<rparr>"
proof (induction fs arbitrary: x c)
  case Nil
  show ?case by simp
next
  case (Cons a as)
  show ?case
    unfolding splitline_loop.simps Let_def Cons.IH length_Cons concat_map_upt_Suc
    using assms
    by (simp add: text_draws_def set_fillStyle_def fillText_def
        funpow_swap1[of "\<lambda>v. js_add v (columnWidth d)"])
qed


lemma splitline_in_bracket:
  assumes "context2d d = Some c" and "currentColor d = Some col"
  shows "splitline fs d =
    d\<lparr>context2d := Some (c\<lparr>cur := (if renderShadow d \<and> fs \<noteq> []
                                    then (cur c)\<lparr>fillStyle := col\<rparr> else cur c),
                           calls := calls c @ concat (map (\<lambda>i.
                              text_draws (renderShadow d) (cur c) col (fs ! i)
                                (((\<lambda>v. js_add v (columnWidth d)) ^^ i) (currentX d)) (currentY d))
                              [0..<length fs])\<rparr>),
      currentY := js_add (currentY d) (lineHeight d)\<rparr>"
  using assms(1) by (simp add: splitline_def splitline_loop_Some[OF assms(2)])

section \<open>Columns\<close>





section \<open>Opening and closing a bracket\<close>

lemma start_frame:
  "game (start x y color cw d) = game d" "sprite (start x y color cw d) = sprite d"
  "font (start x y color cw d) = font d" "lineHeight (start x y color cw d) = lineHeight d"
  "renderShadow (start x y color cw d) = renderShadow d" "uploads (start x y color cw d) = uploads d"
  by (cases "context2d d"; simp add: start_None start_Some)+

lemma stop_Some:
  assumes "context2d d = Some c"
  shows "stop d =
    (if sprite d
     then Inr (d\<lparr>context2d := Some (fillRect 0 0 400 400
                      (set_fillStyle (Some ''#ff0000'') (set_globalAlpha (currentAlpha d) (restore c)))),
                uploads := Suc (uploads d)\<rparr>)
     else Inr (d\<lparr>context2d := Some (set_globalAlpha (currentAlpha d) (restore c))\<rparr>))"
  using assms by (simp add: stop_def Let_def)

lemma stop_None: "context2d d = None \<Longrightarrow> stop d = Inl TypeError"
  by (simp add: stop_def)

lemma set_globalAlpha_same: "set_globalAlpha (globalAlpha (cur c)) c = c"
  by (simp add: set_globalAlpha_def)

lemma restore_after_start:
  "restore (c\<lparr>cur := g, stack := cur c # stack c\<rparr>) = c"
  by (simp add: restore_def)

text \<open>
  Claim C3, as the code has it. After \<^verbatim>\<open>start\<close> immediately followed by \<^verbatim>\<open>stop\<close> on a
  non-null context, the save stack and the current path are as before. When the renderer
  draws on the live canvas (\<^verbatim>\<open>this.sprite\<close> is null) the whole drawing state (stroke and
  fill colour, alpha, font, transform, line width) is as before and nothing was drawn.
  When it draws on its own offscreen canvas (\<^verbatim>\<open>this.sprite\<close> is set), \<^verbatim>\<open>stop\<close> has in
  addition set the fill colour to \<^verbatim>\<open>#ff0000\<close> and filled the rectangle
  \<^verbatim>\<open>(0, 0, 400, 400)\<close>; the rest of the drawing state is as before.
\<close>

theorem start_stop_restores_surface:
  assumes "context2d d = Some c"
  shows "\<exists>d' c'. stop (start x y color cw d) = Inr d' \<and> context2d d' = Some c'
           \<and> stack c' = stack c \<and> path c' = path c
           \<and> cur c' = (if sprite d then (cur c)\<lparr>fillStyle := ''#ff0000''\<rparr> else cur c)
           \<and> calls c' = (if sprite d
                          then calls c @ [FillRect 0 0 400 400 ((cur c)\<lparr>fillStyle := ''#ff0000''\<rparr>)]
                          else calls c)"
proof -
  let ?d0 = "start x y color cw d"
  let ?g = "\<lparr>transform = (1, 0, 0, 1, 0, 0), strokeStyle = js_or color ''rgb(255,255,255)'',
             fillStyle = js_or color ''rgb(255,255,255)'', ctx_font = font d, globalAlpha = 1,
             lineWidth = lineWidth (cur c)\<rparr>"
  let ?c0 = "c\<lparr>cur := ?g, stack := cur c # stack c\<rparr>"
  have d0: "context2d ?d0 = Some ?c0" "currentAlpha ?d0 = globalAlpha (cur c)" "sprite ?d0 = sprite d"
    by (simp_all add: start_Some[OF assms])
  have r: "set_globalAlpha (currentAlpha ?d0) (restore ?c0) = c"
    unfolding d0(2) restore_after_start by (rule set_globalAlpha_same)
  show ?thesis
    unfolding stop_Some[OF d0(1)] r d0(3)
    by (simp add: fillRect_def set_fillStyle_def)
qed

theorem start_stop_restores_surface_witness:
  "context2d (Debug_new canvas_game) = Some fresh_context
   \<and> (\<exists>d' c'. stop (start (Some 10) (Some 20) (Some ''rgb(1,2,3)'') None (Debug_new canvas_game)) = Inr d'
        \<and> context2d d' = Some c' \<and> stack c' = [] \<and> path c' = []
        \<and> cur c' = cur fresh_context \<and> calls c' = [])"
proof -
  have h: "context2d (Debug_new canvas_game) = Some fresh_context"
    by (simp add: Debug_new_canvas)
  show ?thesis
    using h start_stop_restores_surface[OF h, of "Some 10" "Some 20" "Some ''rgb(1,2,3)''" None]
    by (simp add: Debug_new_canvas fresh_context_def)
qed

text \<open>
  The claim as stated fails on a renderer in WebGL mode whose offscreen context is in the
  canvas's default state (fill colour \<^verbatim>\<open>#000000\<close>): after \<^verbatim>\<open>start()\<close> and
  \<^verbatim>\<open>stop()\<close> the fill colour is \<^verbatim>\<open>#ff0000\<close> and a rectangle has been filled.
\<close>

theorem start_stop_counterexample:
  "context2d ((Debug_new webgl_game)\<lparr>context2d := Some fresh_context\<rparr>) = Some fresh_context
   \<and> fillStyle (cur fresh_context) = ''#000000''
   \<and> stop (start None None None None ((Debug_new webgl_game)\<lparr>context2d := Some fresh_context\<rparr>))
     = Inr ((Debug_new webgl_game)
         \<lparr>context2d := Some (fresh_context
             \<lparr>cur := (cur fresh_context)\<lparr>fillStyle := ''#ff0000''\<rparr>,
              calls := [FillRect 0 0 400 400 ((cur fresh_context)\<lparr>fillStyle := ''#ff0000''\<rparr>)]\<rparr>),
          columnWidth := 0, currentColor := Some ''rgb(255,255,255)'', uploads := 1\<rparr>)"
  by (simp add: Debug_new_def webgl_game_def canvas_game_def start_def stop_def Let_def
      num_or_0_def js_or_def save_def restore_def setTransform_def set_strokeStyle_def
      set_fillStyle_def set_font_def set_globalAlpha_def fillRect_def fresh_context_def)

section \<open>A second start before the stop\<close>

lemma globalAlpha_text:
  "globalAlpha (cur (set_fillStyle s c)) = globalAlpha (cur c)"
  "cur (fillText t x y c) = cur c"
  by (simp_all add: set_fillStyle_def fillText_def split: option.splits)

lemma splitline_loop_alpha:
  "globalAlpha (cur (splitline_loop fs x d c)) = globalAlpha (cur c)"
  by (induction fs arbitrary: x c) (simp_all add: Let_def globalAlpha_text)

lemma emit_frame:
  assumes "context2d d = Some c"
  shows "\<exists>c'. context2d (emit e d) = Some c' \<and> globalAlpha (cur c') = globalAlpha (cur c)
           \<and> currentAlpha (emit e d) = currentAlpha d"
proof (cases e)
  case (EmitLine t x y)
  then show ?thesis
    using assms by (cases x; cases y) (simp_all add: line_def Let_def globalAlpha_text)
next
  case (EmitSplitline fs)
  then show ?thesis
    using assms by (simp add: splitline_def splitline_loop_alpha)
qed

lemma emit_all_frame:
  assumes "context2d d = Some c"
  shows "\<exists>c'. context2d (emit_all es d) = Some c' \<and> globalAlpha (cur c') = globalAlpha (cur c)
           \<and> currentAlpha (emit_all es d) = currentAlpha d"
  using assms
proof (induction es arbitrary: d c)
  case Nil
  then show ?case by simp
next
  case (Cons e es)
  from emit_frame[OF Cons.prems, of e]
  obtain c1 where c1: "context2d (emit e d) = Some c1" "globalAlpha (cur c1) = globalAlpha (cur c)"
    "currentAlpha (emit e d) = currentAlpha d"
    by blast
  from Cons.IH[OF c1(1)] show ?case
    by (simp add: c1(2,3))
qed

lemma stop_sets_alpha:
  assumes "context2d d = Some c" and "0 \<le> currentAlpha d" and "currentAlpha d \<le> 1"
  shows "\<exists>d' c'. stop d = Inr d' \<and> context2d d' = Some c'
           \<and> globalAlpha (cur c') = currentAlpha d \<and> currentAlpha d' = currentAlpha d"
  using assms
  by (cases "sprite d")
     (simp_all add: stop_Some[OF assms(1)] set_globalAlpha_def set_fillStyle_def fillRect_def)

text \<open>
  Claim C9. When \<^verbatim>\<open>start\<close> is called twice with no \<^verbatim>\<open>stop\<close> in between, on a
  non-null context and with any text emissions around the calls, the second call stores
  in \<open>currentAlpha\<close> the alpha 1 that the first call forced, whatever the alpha was
  before the first call; the \<^verbatim>\<open>stop\<close> that follows sets the global alpha to 1, and
  so does a second \<^verbatim>\<open>stop\<close> that closes the outer bracket.
\<close>

theorem nested_start_clobbers_alpha:
  assumes "context2d d = Some c"
  shows "currentAlpha (start x1 y1 col1 cw1 d) = globalAlpha (cur c)
       \<and> currentAlpha (start x2 y2 col2 cw2 (emit_all es1 (start x1 y1 col1 cw1 d))) = 1
       \<and> (\<exists>d1 c1 d2 c2.
             stop (emit_all es2 (start x2 y2 col2 cw2 (emit_all es1 (start x1 y1 col1 cw1 d)))) = Inr d1
           \<and> context2d d1 = Some c1 \<and> globalAlpha (cur c1) = 1
           \<and> stop (emit_all es3 d1) = Inr d2 \<and> context2d d2 = Some c2 \<and> globalAlpha (cur c2) = 1)"
proof -
  let ?s1 = "start x1 y1 col1 cw1 d"
  have s1: "currentAlpha ?s1 = globalAlpha (cur c)"
    and "\<exists>c'. context2d ?s1 = Some c' \<and> globalAlpha (cur c') = 1"
    by (simp_all add: start_Some[OF assms])
  then obtain a where a: "context2d ?s1 = Some a" "globalAlpha (cur a) = 1"
    by blast
  let ?e1 = "emit_all es1 ?s1"
  from emit_all_frame[OF a(1), of es1]
  obtain b where b: "context2d ?e1 = Some b" "globalAlpha (cur b) = 1"
    by (auto simp: a(2))
  let ?s2 = "start x2 y2 col2 cw2 ?e1"
  have s2: "currentAlpha ?s2 = 1" and "\<exists>c'. context2d ?s2 = Some c'"
    by (simp_all add: start_Some[OF b(1)] b(2))
  then obtain e where e: "context2d ?s2 = Some e"
    by blast
  let ?e2 = "emit_all es2 ?s2"
  from emit_all_frame[OF e, of es2]
  obtain f where f: "context2d ?e2 = Some f" "currentAlpha ?e2 = 1"
    by (auto simp: s2)
  from stop_sets_alpha[OF f(1)] f(2)
  obtain d1 c1 where d1: "stop ?e2 = Inr d1" "context2d d1 = Some c1" "globalAlpha (cur c1) = 1"
    "currentAlpha d1 = 1"
    by auto
  from emit_all_frame[OF d1(2), of es3]
  obtain g where g: "context2d (emit_all es3 d1) = Some g" "currentAlpha (emit_all es3 d1) = 1"
    by (auto simp: d1(4))
  from stop_sets_alpha[OF g(1)] g(2)
  obtain d2 c2 where d2: "stop (emit_all es3 d1) = Inr d2" "context2d d2 = Some c2"
    "globalAlpha (cur c2) = 1"
    by auto
  show ?thesis
    using s1 s2 d1(1,2,3) d2 by blast
qed

text \<open>
  A renderer whose context has the alpha 1/2: two \<^verbatim>\<open>start\<close> calls with a line between
  them, then a line and the two \<^verbatim>\<open>stop\<close> calls.
\<close>

theorem nested_start_clobbers_alpha_witness:
  "context2d (Debug_new (canvas_game\<lparr>game_context := Some (set_globalAlpha (1/2) fresh_context)\<rparr>))
     = Some (set_globalAlpha (1/2) fresh_context)
   \<and> globalAlpha (cur (set_globalAlpha (1/2) fresh_context)) = 1/2
   \<and> currentAlpha (start None None None None
        (Debug_new (canvas_game\<lparr>game_context := Some (set_globalAlpha (1/2) fresh_context)\<rparr>))) = 1/2
   \<and> currentAlpha (start None None None None (emit_all [EmitLine [Str ''a''] None None]
        (start None None None None
          (Debug_new (canvas_game\<lparr>game_context := Some (set_globalAlpha (1/2) fresh_context)\<rparr>))))) = 1
   \<and> (\<exists>d1 c1 d2 c2.
         stop (emit_all [EmitLine [Str ''b''] None None]
           (start None None None None (emit_all [EmitLine [Str ''a''] None None]
             (start None None None None
               (Debug_new (canvas_game\<lparr>game_context := Some (set_globalAlpha (1/2) fresh_context)\<rparr>))))))
           = Inr d1
       \<and> context2d d1 = Some c1 \<and> globalAlpha (cur c1) = 1
       \<and> stop (emit_all [] d1) = Inr d2 \<and> context2d d2 = Some c2 \<and> globalAlpha (cur c2) = 1)"
proof -
  have h: "context2d (Debug_new (canvas_game\<lparr>game_context := Some (set_globalAlpha (1/2) fresh_context)\<rparr>))
     = Some (set_globalAlpha (1/2) fresh_context)"
    by (simp add: Debug_new_def canvas_game_def)
  have a: "globalAlpha (cur (set_globalAlpha (1/2) fresh_context)) = 1/2"
    by (simp add: set_globalAlpha_def fresh_context_def)
  show ?thesis
    using h a nested_start_clobbers_alpha[OF h, where ?x1.0=None and ?y1.0=None and ?col1.0=None
        and ?cw1.0=None and ?x2.0=None and ?y2.0=None and ?col2.0=None and ?cw2.0=None
        and ?es1.0="[EmitLine [Str ''a''] None None]" and ?es2.0="[EmitLine [Str ''b''] None None]"
        and ?es3.0="[]"]
    by (simp del: emit_all.simps)
qed

section \<open>The column width after a start that omits it\<close>

lemma zero_width_start:
  assumes "context2d d \<noteq> None"
  shows "context2d (start x y color None d) \<noteq> None \<and> columnWidth (start x y color None d) = 0
       \<and> currentColor (start x y color None d) \<noteq> None"
  using assms by (auto simp: start_Some num_or_0_def)

lemma zero_width_line:
  assumes "context2d d \<noteq> None \<and> columnWidth d = 0 \<and> currentColor d \<noteq> None"
  shows "context2d (line t x y d) \<noteq> None \<and> columnWidth (line t x y d) = 0
       \<and> currentColor (line t x y d) \<noteq> None"
  using assms by (auto simp: line_Some)

lemma zero_width_splitline:
  assumes "context2d d \<noteq> None \<and> columnWidth d = 0 \<and> currentColor d \<noteq> None"
  shows "context2d (splitline fs d) \<noteq> None \<and> columnWidth (splitline fs d) = 0
       \<and> currentColor (splitline fs d) \<noteq> None"
  using assms by (auto simp: splitline_def)

lemma zero_width_stop:
  assumes "context2d d \<noteq> None \<and> columnWidth d = 0 \<and> currentColor d \<noteq> None"
  shows "\<exists>d'. stop d = Inr d' \<and> context2d d' \<noteq> None \<and> columnWidth d' = 0 \<and> currentColor d' \<noteq> None"
  using assms by (auto simp: stop_Some)

lemma zero_width_run_call:
  assumes "context2d d \<noteq> None \<and> columnWidth d = 0 \<and> currentColor d \<noteq> None"
  shows "\<exists>d'. run_call a d = Inr d' \<and> context2d d' \<noteq> None \<and> columnWidth d' = 0
           \<and> currentColor d' \<noteq> None"
proof (cases a)
  case (StartCall x y color)
  then show ?thesis using zero_width_start[of d x y color] assms by simp
next
  case (LineCall t x y)
  then show ?thesis using zero_width_line[OF assms, of t x y] by simp
next
  case (SplitlineCall fs)
  then show ?thesis using zero_width_splitline[OF assms, of fs] by simp
next
  case StopCall
  then show ?thesis using zero_width_stop[OF assms] by simp
qed

lemma zero_width_steps:
  assumes "context2d d \<noteq> None \<and> columnWidth d = 0 \<and> currentColor d \<noteq> None"
  shows "\<exists>d'. steps (map run_call cs) d = Inr d' \<and> context2d d' \<noteq> None \<and> columnWidth d' = 0
           \<and> currentColor d' \<noteq> None"
  using assms
proof (induction cs arbitrary: d)
  case Nil
  then show ?case by simp
next
  case (Cons a cs)
  from zero_width_run_call[OF Cons.prems, of a]
  obtain d1 where d1: "run_call a d = Inr d1"
    "context2d d1 \<noteq> None \<and> columnWidth d1 = 0 \<and> currentColor d1 \<noteq> None" by blast
  from Cons.IH[OF d1(2)] show ?case by (simp add: d1(1))
qed

lemma js_add_0_iterate:
  assumes "fl x = x"
  shows "((\<lambda>v. js_add v 0) ^^ i) x = x"
  by (induction i) (simp_all add: js_add_def assms)

text \<open>
  Claim C10, as the code has it. A call of \<^verbatim>\<open>start\<close> on a non-null context that omits
  the \<^verbatim>\<open>columnWidth\<close> argument sets the instance field \<open>columnWidth\<close> to 0, whatever
  it was (100 after construction, or the caller's value). The field stays 0 through every
  later \<^verbatim>\<open>stop\<close>, \<^verbatim>\<open>line\<close> and \<^verbatim>\<open>splitline\<close> and through every later
  \<^verbatim>\<open>start\<close> that omits the argument too, none of which raises; a \<^verbatim>\<open>splitline\<close>
  called then adds 0 from fragment to fragment, so that it draws all its fragments at the
  horizontal position \<open>currentX\<close> when that is a double. A later \<^verbatim>\<open>start\<close> that passes
  a column width sets the field to that width.
\<close>

theorem start_without_columnWidth_zeroes_it:
  assumes "context2d d = Some c"
  shows "columnWidth (start x y color None d) = 0
       \<and> (\<exists>d' c' col.
             steps (map run_call cs) (start x y color None d) = Inr d'
           \<and> columnWidth d' = 0 \<and> context2d d' = Some c' \<and> currentColor d' = Some col
           \<and> (\<exists>c''. splitline fs d'
                      = d'\<lparr>context2d := Some c'', currentY := js_add (currentY d') (lineHeight d')\<rparr>
                \<and> calls c'' = calls c' @ concat (map (\<lambda>i.
                      text_draws (renderShadow d') (cur c') col (fs ! i)
                        (((\<lambda>v. js_add v 0) ^^ i) (currentX d')) (currentY d'))
                      [0..<length fs]))
           \<and> (fl (currentX d') = currentX d'
                \<longrightarrow> (\<forall>i. ((\<lambda>v. js_add v 0) ^^ i) (currentX d') = currentX d'))
           \<and> columnWidth (start x' y' color' (Some w) d') = w)"
proof -
  have z: "context2d (start x y color None d) \<noteq> None \<and> columnWidth (start x y color None d) = 0
       \<and> currentColor (start x y color None d) \<noteq> None"
    using assms by (simp add: zero_width_start)
  from zero_width_steps[OF z, of cs]
  obtain d' where d': "steps (map run_call cs) (start x y color None d) = Inr d'"
    "context2d d' \<noteq> None \<and> columnWidth d' = 0 \<and> currentColor d' \<noteq> None"
    by blast
  from d'(2) obtain c' col where s: "columnWidth d' = 0" "context2d d' = Some c'"
    "currentColor d' = Some col"
    by auto
  obtain c'' where c'':
    "splitline fs d' = d'\<lparr>context2d := Some c'', currentY := js_add (currentY d') (lineHeight d')\<rparr>"
    "calls c'' = calls c' @ concat (map (\<lambda>i.
            text_draws (renderShadow d') (cur c') col (fs ! i)
              (((\<lambda>v. js_add v (columnWidth d')) ^^ i) (currentX d')) (currentY d')) [0..<length fs])"
    using splitline_in_bracket[OF s(2,3), of fs] by simp
  have 1: "columnWidth (start x y color None d) = 0"
    using z by simp
  have 2: "calls c'' = calls c' @ concat (map (\<lambda>i.
            text_draws (renderShadow d') (cur c') col (fs ! i)
              (((\<lambda>v. js_add v 0) ^^ i) (currentX d')) (currentY d'))
            [0..<length fs])"
    using c''(2) by (simp add: s(1))
  have 3: "\<forall>i. ((\<lambda>v. js_add v 0) ^^ i) (currentX d') = currentX d'"
    if "fl (currentX d') = currentX d'"
    using js_add_0_iterate[OF that] by simp
  have 4: "columnWidth (start x' y' color' (Some w) d') = w"
    by (simp add: start_Some[OF s(2)] num_or_0_def)
  show ?thesis
    using 1 d'(1) s c''(1) 2 3 4 by blast
qed

text \<open>
  A new renderer in canvas mode has the documented column width 100; after \<^verbatim>\<open>start()\<close>
  and \<^verbatim>\<open>stop()\<close> it is 0, and a later \<^verbatim>\<open>splitline("a", "b")\<close> draws both fragments
  at the same place.
\<close>

theorem start_without_columnWidth_zeroes_it_witness:
  "context2d (Debug_new canvas_game) = Some fresh_context
   \<and> columnWidth (Debug_new canvas_game) = 100
   \<and> columnWidth (start None None None None (Debug_new canvas_game)) = 0
   \<and> (\<exists>d' c' col.
         steps (map run_call [StopCall]) (start None None None None (Debug_new canvas_game)) = Inr d'
       \<and> d' = (Debug_new canvas_game)\<lparr>columnWidth := 0, currentColor := Some ''rgb(255,255,255)''\<rparr>
       \<and> columnWidth d' = 0 \<and> context2d d' = Some c' \<and> currentColor d' = Some col
       \<and> fl (currentX d') = currentX d'
       \<and> (\<exists>c''. splitline [[Str ''a''], [Str ''b'']] d'
                  = d'\<lparr>context2d := Some c'', currentY := js_add (currentY d') (lineHeight d')\<rparr>
            \<and> calls c'' = calls c'
                 @ text_draws (renderShadow d') (cur c') col [Str ''a''] (currentX d') (currentY d')
                 @ text_draws (renderShadow d') (cur c') col [Str ''b''] (currentX d') (currentY d'))
       \<and> columnWidth (start None None None (Some 150) d') = 150)"
proof -
  let ?r = "(Debug_new canvas_game)\<lparr>columnWidth := 0, currentColor := Some ''rgb(255,255,255)''\<rparr>"
  have h: "context2d (Debug_new canvas_game) = Some fresh_context"
    by (simp add: Debug_new_canvas)
  have w: "columnWidth (Debug_new canvas_game) = 100"
    by (simp add: Debug_new_canvas)
  have u: "[0..<2] = [0, Suc 0]"
    by (simp add: upt_rec numeral_2_eq_2)
  have r: "steps (map run_call [StopCall]) (start None None None None (Debug_new canvas_game)) = Inr ?r"
    by (simp add: Debug_new_canvas start_Some[of _ fresh_context] js_or_def num_or_0_def
        stop_Some[of _ "fresh_context\<lparr>cur := g, stack := s\<rparr>" for g s] restore_def
        set_globalAlpha_def fresh_context_def)
  have x: "fl (currentX ?r) = currentX ?r"
    by (simp add: Debug_new_canvas fl_def)
  from start_without_columnWidth_zeroes_it[OF h, of None None None "[StopCall]"
        "[[Str ''a''], [Str ''b'']]" None None None 150]
  show ?thesis
    using h w x unfolding r by (simp add: u Debug_new_canvas js_add_def fl_int)
qed

text \<open>
  The claim as stated fails for a later bracket that passes its own column width: on a new
  renderer in canvas mode, after \<^verbatim>\<open>start()\<close> and \<^verbatim>\<open>stop()\<close>, the calls
  \<^verbatim>\<open>start(undefined, undefined, undefined, 150)\<close> and \<^verbatim>\<open>splitline("a", "b")\<close> find the
  column width 150 and draw the second fragment 150 to the right of the first.
\<close>

theorem later_width_counterexample:
  "stop (start None None None None (Debug_new canvas_game))
     = Inr ((Debug_new canvas_game)\<lparr>columnWidth := 0, currentColor := Some ''rgb(255,255,255)''\<rparr>)
   \<and> columnWidth (start None None None (Some 150)
        ((Debug_new canvas_game)\<lparr>columnWidth := 0, currentColor := Some ''rgb(255,255,255)''\<rparr>))
     = 150
   \<and> map_option calls (context2d (splitline [[Str ''a''], [Str ''b'']]
        (start None None None (Some 150)
          ((Debug_new canvas_game)\<lparr>columnWidth := 0, currentColor := Some ''rgb(255,255,255)''\<rparr>))))
     = Some
          [FillText [Str ''a''] 1 1
             \<lparr>transform = (1, 0, 0, 1, 0, 0), strokeStyle = ''rgb(255,255,255)'',
              fillStyle = ''rgb(0,0,0)'', ctx_font = ''14px Courier'', globalAlpha = 1, lineWidth = 1\<rparr>,
           FillText [Str ''a''] 0 0
             \<lparr>transform = (1, 0, 0, 1, 0, 0), strokeStyle = ''rgb(255,255,255)'',
              fillStyle = ''rgb(255,255,255)'', ctx_font = ''14px Courier'', globalAlpha = 1, lineWidth = 1\<rparr>,
           FillText [Str ''b''] 151 1
             \<lparr>transform = (1, 0, 0, 1, 0, 0), strokeStyle = ''rgb(255,255,255)'',
              fillStyle = ''rgb(0,0,0)'', ctx_font = ''14px Courier'', globalAlpha = 1, lineWidth = 1\<rparr>,
           FillText [Str ''b''] 150 0
             \<lparr>transform = (1, 0, 0, 1, 0, 0), strokeStyle = ''rgb(255,255,255)'',
              fillStyle = ''rgb(255,255,255)'', ctx_font = ''14px Courier'', globalAlpha = 1, lineWidth = 1\<rparr>]"
proof -
  let ?r = "(Debug_new canvas_game)\<lparr>columnWidth := 0, currentColor := Some ''rgb(255,255,255)''\<rparr>"
  let ?s = "start None None None (Some 150) ?r"
  let ?c = "fresh_context\<lparr>cur := \<lparr>transform = (1, 0, 0, 1, 0, 0), strokeStyle = ''rgb(255,255,255)'',
                 fillStyle = ''rgb(255,255,255)'', ctx_font = ''14px Courier'', globalAlpha = 1,
                 lineWidth = 1\<rparr>, stack := [cur fresh_context]\<rparr>"
  have 1: "stop (start None None None None (Debug_new canvas_game)) = Inr ?r"
    by (simp add: Debug_new_canvas start_Some[of _ fresh_context] js_or_def num_or_0_def
        stop_Some[of _ "fresh_context\<lparr>cur := g, stack := s\<rparr>" for g s] restore_def
        set_globalAlpha_def fresh_context_def)
  have h1: "context2d ?s = Some ?c"
    by (simp add: start_Some[of _ fresh_context] Debug_new_canvas js_or_def fresh_context_def)
  have h2: "currentColor ?s = Some ''rgb(255,255,255)''"
    by (simp add: start_Some[of _ fresh_context] Debug_new_canvas js_or_def)
  have v: "currentX ?s = 0" "currentY ?s = 0" "columnWidth ?s = 150" "lineHeight ?s = 16"
    "renderShadow ?s = True"
    by (simp_all add: start_Some[of _ fresh_context] Debug_new_canvas num_or_0_def)
  have u: "[0..<2] = [0, Suc 0]"
    by (simp add: upt_rec numeral_2_eq_2)
  have "map_option calls (context2d (splitline [[Str ''a''], [Str ''b'']] ?s))
     = Some (calls ?c @ concat (map (\<lambda>i.
                text_draws (renderShadow ?s) (cur ?c) ''rgb(255,255,255)'' ([[Str ''a''], [Str ''b'']] ! i)
                  (((\<lambda>v. js_add v (columnWidth ?s)) ^^ i) (currentX ?s)) (currentY ?s))
                [0..<length [[Str ''a''], [Str ''b'']]]))"
    by (simp add: splitline_in_bracket[OF h1 h2])
  then show ?thesis
    using 1 v(3)
    by (simp add: v u text_draws_def fresh_context_def js_add_def fl_int)
qed

section \<open>What the canvas operations leave unchanged\<close>

lemma save_sel [simp]:
  "cur (save c) = cur c" "stack (save c) = cur c # stack c"
  "path (save c) = path c" "calls (save c) = calls c"
  by (simp_all add: save_def)

lemma restore_sel [simp]:
  "path (restore c) = path c" "calls (restore c) = calls c"
  by (simp_all add: restore_def split: list.splits)

lemma restore_Cons [simp]:
  "stack c = g # gs \<Longrightarrow> cur (restore c) = g"
  "stack c = g # gs \<Longrightarrow> stack (restore c) = gs"
  by (simp_all add: restore_def)

lemma translate_sel [simp]:
  "stack (translate x y c) = stack c" "path (translate x y c) = path c"
  "calls (translate x y c) = calls c"
  by (simp_all add: translate_def split: prod.splits)

lemma rotate_sel [simp]:
  "stack (rotate_ctx a c) = stack c" "path (rotate_ctx a c) = path c" "calls (rotate_ctx a c) = calls c"
  by (simp_all add: rotate_ctx_def split: prod.splits option.splits)

lemma set_lineWidth_sel [simp]:
  "stack (set_lineWidth w c) = stack c" "path (set_lineWidth w c) = path c"
  "calls (set_lineWidth w c) = calls c"
  by (simp_all add: set_lineWidth_def)

lemma beginPath_sel [simp]:
  "cur (beginPath c) = cur c" "stack (beginPath c) = stack c"
  "path (beginPath c) = []" "calls (beginPath c) = calls c"
  by (simp_all add: beginPath_def)

lemma moveTo_sel [simp]:
  "cur (moveTo x y c) = cur c" "stack (moveTo x y c) = stack c" "calls (moveTo x y c) = calls c"
  by (simp_all add: moveTo_def)

lemma lineTo_sel [simp]:
  "cur (lineTo x y c) = cur c" "stack (lineTo x y c) = stack c" "calls (lineTo x y c) = calls c"
  by (simp_all add: lineTo_def)

lemma closePath_sel [simp]:
  "cur (closePath c) = cur c" "stack (closePath c) = stack c" "calls (closePath c) = calls c"
  by (simp_all add: closePath_def)

lemma stroke_sel [simp]:
  "cur (stroke c) = cur c" "stack (stroke c) = stack c" "path (stroke c) = path c"
  "calls (stroke c) = calls c @ [Stroke (path c) (cur c)]"
  by (simp_all add: stroke_def)

lemma lineTo_loop_sel [simp]:
  "cur (lineTo_loop g ps c) = cur c" "stack (lineTo_loop g ps c) = stack c"
  "calls (lineTo_loop g ps c) = calls c"
  by (induction ps arbitrary: c) simp_all

lemma path_sel [simp]:
  "path (translate x y c) = path c" "path (rotate_ctx a c) = path c"
  "path (moveTo x y c) = path c @ [MoveTo (transform (cur c)) x y]"
  "path (lineTo x y c) = path c @ [LineTo (transform (cur c)) x y]"
  "path (closePath c) = path c @ [ClosePath]"
  by (simp_all add: moveTo_def lineTo_def closePath_def)

lemma transform_set_lineWidth [simp]:
  "transform (cur (set_lineWidth w c)) = transform (cur c)"
  by (simp add: set_lineWidth_def)

lemma cur_cong:
  "cur a = cur b \<Longrightarrow> cur (translate x y a) = cur (translate x y b)"
  "cur a = cur b \<Longrightarrow> cur (rotate_ctx t a) = cur (rotate_ctx t b)"
  "cur a = cur b \<Longrightarrow> cur (set_lineWidth w a) = cur (set_lineWidth w b)"
  by (simp_all add: translate_def rotate_ctx_def set_lineWidth_def split: prod.splits option.splits)

lemma arc_Inr:
  "0 \<le> r \<Longrightarrow> arc x y r a0 a1 c = Inr (c\<lparr>path := path c @ [Arc (transform (cur c)) x y r a0 a1]\<rparr>)"
  by (simp add: arc_def)

section \<open>The shape renderers on a non-null context\<close>

lemma on_context_upd [simp]:
  "on_context f (d\<lparr>context2d := Some c\<rparr>) = Inr (d\<lparr>context2d := Some (f c)\<rparr>)"
  by (simp add: on_context_def)

lemma on_context_try_upd [simp]:
  "on_context_try f (d\<lparr>context2d := Some c\<rparr>) =
     (case f c of Inl e \<Rightarrow> Inl e | Inr c' \<Rightarrow> Inr (d\<lparr>context2d := Some c'\<rparr>))"
  by (simp add: on_context_try_def split: sum.splits)

lemma debug_context_upd: "context2d d = Some c \<Longrightarrow> d = d\<lparr>context2d := Some c\<rparr>"
  by simp

lemma renderShapeLine_upd:
  "\<exists>c'. renderShapeLine x y bodyAngle len offset angle (d\<lparr>context2d := Some c\<rparr>)
          = Inr (d\<lparr>context2d := Some c'\<rparr>)
     \<and> cur c' = cur c \<and> stack c' = stack c
     \<and> calls c' = calls c @
         [Stroke [MoveTo (transform (cur (rotate_ctx (add_angle bodyAngle angle) (translate x y c)))) 0 0,
                  LineTo (transform (cur (rotate_ctx (add_angle bodyAngle angle) (translate x y c))))
                    (p2px (game d) len) 0,
                  ClosePath]
            (cur (set_lineWidth (1/2) (rotate_ctx (add_angle bodyAngle angle) (translate x y c))))]"
proof -
  have a: "cur (set_lineWidth (1/2) (rotate_ctx (add_angle bodyAngle angle) (translate x y (save (beginPath c)))))
         = cur (set_lineWidth (1/2) (rotate_ctx (add_angle bodyAngle angle) (translate x y c)))"
    and b: "cur (rotate_ctx (add_angle bodyAngle angle) (translate x y (save (beginPath c))))
         = cur (rotate_ctx (add_angle bodyAngle angle) (translate x y c))"
    by (intro cur_cong, simp)+
  show ?thesis
    unfolding renderShapeLine_def
    by (simp, intro exI conjI, rule refl) (simp_all add: a b)
qed

lemma polygon_upd:
  assumes "points \<noteq> []"
  shows "\<exists>c' p g.
       steps [on_context beginPath, on_context save, on_context (translate tx ty),
              on_context (rotate_ctx a), on_context_try (polygon_path gm points),
              on_context closePath, on_context stroke, on_context restore]
         (d\<lparr>context2d := Some c\<rparr>) = Inr (d\<lparr>context2d := Some c'\<rparr>)
     \<and> cur c' = cur c \<and> stack c' = stack c \<and> calls c' = calls c @ [Stroke p g]"
proof -
  from assms obtain q qs where p: "points = q # qs" by (cases points) auto
  show ?thesis
    by (simp add: p polygon_path_def, intro exI conjI, rule refl) simp_all
qed

lemma renderShapeRectangle_upd:
  assumes "points \<noteq> []"
  shows "\<exists>c' p g. renderShapeRectangle x y bodyAngle w h points (Some off) angle (d\<lparr>context2d := Some c\<rparr>)
          = Inr (d\<lparr>context2d := Some c'\<rparr>)
     \<and> cur c' = cur c \<and> stack c' = stack c \<and> calls c' = calls c @ [Stroke p g]"
  unfolding renderShapeRectangle_def Let_def option.case
  by (rule polygon_upd[OF assms])

lemma renderShapeConvex_upd:
  assumes "points \<noteq> []"
  shows "\<exists>c' p g. renderShapeConvex x y bodyAngle points (Some off) angle (d\<lparr>context2d := Some c\<rparr>)
          = Inr (d\<lparr>context2d := Some c'\<rparr>)
     \<and> cur c' = cur c \<and> stack c' = stack c \<and> calls c' = calls c @ [Stroke p g]"
  unfolding renderShapeConvex_def Let_def option.case
  by (rule polygon_upd[OF assms])

lemma renderShapeCircle_upd:
  assumes "0 \<le> p2px (game d) radius"
  shows "\<exists>c' p g. renderShapeCircle x y bodyAngle radius (Some off) angle (d\<lparr>context2d := Some c\<rparr>)
          = Inr (d\<lparr>context2d := Some c'\<rparr>)
     \<and> cur c' = cur c \<and> stack c' = stack c \<and> calls c' = calls c @ [Stroke p g]"
  by (simp add: renderShapeCircle_def arc_Inr[OF assms] Let_def, intro exI conjI, rule refl) simp_all

lemma shape_renderers_null_context:
  assumes "context2d d = None"
  shows "renderShapeRectangle x y bodyAngle w h points offset angle d = Inl TypeError"
    and "renderShapeLine x y bodyAngle len offset angle d = Inl TypeError"
    and "renderShapeConvex x y bodyAngle points offset angle d = Inl TypeError"
    and "renderShapeCircle x y bodyAngle radius offset angle d = Inl TypeError"
  using assms
  by (simp_all add: renderShapeRectangle_def renderShapeLine_def renderShapeConvex_def
      renderShapeCircle_def on_context_def Let_def split: option.splits)

lemma renderShape_upd:
  assumes "i < length (shapes b)" "i < length (shapeOffsets b)" "wf_shape (game d) (shapes b ! i)"
  shows "\<exists>c'. renderShape x y a b i (d\<lparr>context2d := Some c\<rparr>) = Inr (d\<lparr>context2d := Some c'\<rparr>)
     \<and> cur c' = cur c \<and> stack c' = stack c
     \<and> length (calls c') = length (calls c) + drawn_shapes [shapes b ! i]"
proof (cases "shapes b ! i")
  case (Rectangle w h points)
  with assms(3) have "points \<noteq> []" by simp
  from renderShapeRectangle_upd[OF this, where x=x and y=y and bodyAngle=a and w=w and h=h
      and off="shapeOffsets b ! i" and angle="js_index (shapeAngles b) i" and d=d and c=c]
  show ?thesis using assms(2) by (auto simp: renderShape_def js_index_def Rectangle drawn_shapes_def)
next
  case (Line len)
  from renderShapeLine_upd[where x=x and y=y and bodyAngle=a and len=len
      and offset="js_index (shapeOffsets b) i" and angle="js_index (shapeAngles b) i" and d=d and c=c]
  show ?thesis by (auto simp: renderShape_def Line drawn_shapes_def)
next
  case (Convex points)
  with assms(3) have "points \<noteq> []" by simp
  from renderShapeConvex_upd[OF this, where x=x and y=y and bodyAngle=a
      and off="shapeOffsets b ! i" and angle="js_index (shapeAngles b) i" and d=d and c=c]
  show ?thesis using assms(2) by (auto simp: renderShape_def js_index_def Convex drawn_shapes_def)
next
  case (Circle r)
  with assms(3) have "0 \<le> p2px (game d) r" by simp
  from renderShapeCircle_upd[OF this, where x=x and y=y and bodyAngle=a
      and off="shapeOffsets b ! i" and angle="js_index (shapeAngles b) i" and c=c]
  show ?thesis using assms(2) by (auto simp: renderShape_def js_index_def Circle drawn_shapes_def)
next
  case OtherShape
  then show ?thesis by (auto simp: renderShape_def drawn_shapes_def intro!: exI[of _ c])
qed

lemma drawn_shapes_append: "drawn_shapes (xs @ ys) = drawn_shapes xs + drawn_shapes ys"
  by (simp add: drawn_shapes_def)

lemma renderShapes_upd:
  assumes "n \<le> length (shapes b)" "length (shapes b) \<le> length (shapeOffsets b)"
    "list_all (wf_shape (game d)) (shapes b)"
  shows "\<exists>c'. renderShapes n x y a b (d\<lparr>context2d := Some c\<rparr>) = Inr (d\<lparr>context2d := Some c'\<rparr>)
     \<and> cur c' = cur c \<and> stack c' = stack c
     \<and> length (calls c') = length (calls c) + drawn_shapes (take n (shapes b))"
  using assms(1)
proof (induction n arbitrary: c)
  case 0
  show ?case by (auto simp: drawn_shapes_def intro!: exI[of _ c])
next
  case (Suc n)
  have i: "n < length (shapes b)" "n < length (shapeOffsets b)"
    using Suc.prems assms(2) by simp_all
  have w: "wf_shape (game d) (shapes b ! n)"
    using assms(3) i(1) by (simp add: list_all_length)
  from renderShape_upd[OF i w, of x y a c]
  obtain c1 where c1: "renderShape x y a b n (d\<lparr>context2d := Some c\<rparr>) = Inr (d\<lparr>context2d := Some c1\<rparr>)"
    "cur c1 = cur c" "stack c1 = stack c"
    "length (calls c1) = length (calls c) + drawn_shapes [shapes b ! n]"
    by blast
  from Suc.IH[of c1] Suc.prems
  obtain c2 where c2: "renderShapes n x y a b (d\<lparr>context2d := Some c1\<rparr>) = Inr (d\<lparr>context2d := Some c2\<rparr>)"
    "cur c2 = cur c1" "stack c2 = stack c1"
    "length (calls c2) = length (calls c1) + drawn_shapes (take n (shapes b))"
    by auto
  have t: "take (Suc n) (shapes b) = take n (shapes b) @ [shapes b ! n]"
    using i(1) by (rule take_Suc_conv_app_nth)
  show ?case
    by (rule exI[of _ c2]) (simp add: c1 c2 t drawn_shapes_append)
qed

section \<open>Rendering a body\<close>

text \<open>
  Claim C8, as the code has it. Let the context be non-null and the body well formed
  (every vertex list has a first vertex, every radius is non-negative in screen units and
  every shape has an offset). Then \<open>renderPhysicsBody\<close> raises no error. Its loop over
  the shapes changes nothing but the context, and leaves the drawing state and the save
  stack of the context as \<^verbatim>\<open>start\<close> set them: each shape is drawn between a
  \<^verbatim>\<open>save\<close> and a \<^verbatim>\<open>restore\<close> of its own. One stroke is emitted for each shape that
  is a rectangle, a line, a convex or a circle and nothing for any other shape. The call
  as a whole does change the Cursor State: \<^verbatim>\<open>start(0, 0, color)\<close> sets it to
  \<open>(0, 0, color, 0)\<close>. After the final \<^verbatim>\<open>stop\<close> the save stack is as before the call
  and the drawing state is as before, but for the fill colour \<^verbatim>\<open>#ff0000\<close> and one
  filled rectangle when the renderer draws on its offscreen canvas.
\<close>

theorem renderPhysicsBody_frame:
  assumes "context2d d = Some c" and "wf_body (game d) b"
  shows "\<exists>c0 c1 d' c'.
       context2d (start (Some 0) (Some 0) (Some (js_or color ''rgb(255,255,255)'')) None d) = Some c0
     \<and> renderShapes (length (shapes b))
          (js_sub (p2pxi (game d) (fst (bd_position b))) (camera_view_x (game d)))
          (js_sub (p2pxi (game d) (snd (bd_position b))) (camera_view_y (game d)))
          (bd_angle b) b
          (start (Some 0) (Some 0) (Some (js_or color ''rgb(255,255,255)'')) None d)
        = Inr ((start (Some 0) (Some 0) (Some (js_or color ''rgb(255,255,255)'')) None d)
                 \<lparr>context2d := Some c1\<rparr>)
     \<and> cur c1 = cur c0 \<and> stack c1 = stack c0
     \<and> length (calls c1) = length (calls c) + drawn_shapes (shapes b)
     \<and> renderPhysicsBody (Some b) color d = Inr d'
     \<and> context2d d' = Some c'
     \<and> currentX d' = 0 \<and> currentY d' = 0 \<and> columnWidth d' = 0
     \<and> currentColor d' = Some (js_or color ''rgb(255,255,255)'')
     \<and> stack c' = stack c
     \<and> cur c' = (if sprite d then (cur c)\<lparr>fillStyle := ''#ff0000''\<rparr> else cur c)
     \<and> length (calls c') = length (calls c) + drawn_shapes (shapes b) + (if sprite d then 1 else 0)"
proof -
  let ?col = "js_or color ''rgb(255,255,255)''"
  let ?d0 = "start (Some 0) (Some 0) (Some ?col) None d"
  let ?g = "\<lparr>transform = (1, 0, 0, 1, 0, 0), strokeStyle = ?col, fillStyle = ?col,
             ctx_font = font d, globalAlpha = 1, lineWidth = lineWidth (cur c)\<rparr>"
  let ?c0 = "c\<lparr>cur := ?g, stack := cur c # stack c\<rparr>"
  let ?x = "js_sub (p2pxi (game d) (fst (bd_position b))) (camera_view_x (game d))"
  let ?y = "js_sub (p2pxi (game d) (snd (bd_position b))) (camera_view_y (game d))"
  have col: "js_or (Some ?col) ''rgb(255,255,255)'' = ?col"
    by (simp add: js_or_def split: option.splits)
  have d0: "context2d ?d0 = Some ?c0" "currentAlpha ?d0 = globalAlpha (cur c)"
    "currentX ?d0 = 0" "currentY ?d0 = 0" "columnWidth ?d0 = 0" "currentColor ?d0 = Some ?col"
    by (simp_all add: start_Some[OF assms(1)] col num_or_0_def)
  have e: "?d0 = ?d0\<lparr>context2d := Some ?c0\<rparr>"
    using d0(1) by (rule debug_context_upd)
  have wf: "length (shapes b) \<le> length (shapeOffsets b)" "list_all (wf_shape (game ?d0)) (shapes b)"
    using assms(2) by (simp_all add: wf_body_def start_frame)
  from renderShapes_upd[OF le_refl wf, of ?x ?y "bd_angle b" ?c0]
  obtain c1 where c1:
    "renderShapes (length (shapes b)) ?x ?y (bd_angle b) b (?d0\<lparr>context2d := Some ?c0\<rparr>)
       = Inr (?d0\<lparr>context2d := Some c1\<rparr>)"
    "cur c1 = cur ?c0" "stack c1 = stack ?c0"
    "length (calls c1) = length (calls ?c0) + drawn_shapes (shapes b)"
    by auto
  have loop: "renderShapes (length (shapes b)) ?x ?y (bd_angle b) b ?d0 = Inr (?d0\<lparr>context2d := Some c1\<rparr>)"
    using c1(1) e by simp
  let ?d1 = "?d0\<lparr>context2d := Some c1\<rparr>"
  have s1: "stack c1 = cur c # stack c"
    by (simp add: c1(3))
  let ?c2 = "set_globalAlpha (globalAlpha (cur c)) (restore c1)"
  have c2: "cur ?c2 = cur c" "stack ?c2 = stack c" "calls ?c2 = calls c1"
    by (simp_all add: set_globalAlpha_def s1)
  have st: "stop ?d1 =
    (if sprite d
     then Inr (?d1\<lparr>context2d := Some (fillRect 0 0 400 400 (set_fillStyle (Some ''#ff0000'') ?c2)),
                  uploads := Suc (uploads ?d1)\<rparr>)
     else Inr (?d1\<lparr>context2d := Some ?c2\<rparr>))"
    by (simp add: stop_Some[of ?d1 c1] d0(2) start_frame)
  have body: "renderPhysicsBody (Some b) color d = stop ?d1"
    using assms(1) by (simp add: renderPhysicsBody_def Let_def start_frame loop split: sum.splits)
  show ?thesis
  proof (cases "sprite d")
    case True
    let ?c' = "fillRect 0 0 400 400 (set_fillStyle (Some ''#ff0000'') ?c2)"
    have r: "renderPhysicsBody (Some b) color d = Inr (?d1\<lparr>context2d := Some ?c', uploads := Suc (uploads ?d1)\<rparr>)"
      using True body st by simp
    have p: "stack ?c' = stack c" "cur ?c' = (cur c)\<lparr>fillStyle := ''#ff0000''\<rparr>"
      "length (calls ?c') = length (calls c) + drawn_shapes (shapes b) + 1"
      using c2 c1(4) by (simp_all add: fillRect_def set_fillStyle_def)
    show ?thesis
      apply (rule exI[of _ ?c0], rule exI[of _ c1])
      apply (rule exI[of _ "?d1\<lparr>context2d := Some ?c', uploads := Suc (uploads ?d1)\<rparr>"])
      apply (rule exI[of _ ?c'])
      using True d0 loop c1(2,3,4) r p
      apply simp
      done
  next
    case False
    have r: "renderPhysicsBody (Some b) color d = Inr (?d1\<lparr>context2d := Some ?c2\<rparr>)"
      using False body st by simp
    show ?thesis
      apply (rule exI[of _ ?c0], rule exI[of _ c1])
      apply (rule exI[of _ "?d1\<lparr>context2d := Some ?c2\<rparr>"])
      apply (rule exI[of _ ?c2])
      using False d0 loop c1(2,3,4) r c2
      apply simp
      done
  qed
qed

lemma canvas_game_sel:
  "renderType canvas_game = CANVAS" "game_context canvas_game = Some fresh_context"
  "p2px canvas_game v = js_mul v 20" "p2pxi canvas_game v = js_mul v (- 20)"
  "camera_view_x canvas_game = 0" "camera_view_y canvas_game = 0"
  "game_input canvas_game = example_input"
  by (simp_all add: canvas_game_def)

theorem renderPhysicsBody_frame_witness:
  "context2d (Debug_new canvas_game) = Some fresh_context
   \<and> wf_body (game (Debug_new canvas_game)) example_body
   \<and> (\<exists>d' c'. renderPhysicsBody (Some example_body) None (Debug_new canvas_game) = Inr d'
        \<and> context2d d' = Some c'
        \<and> currentX d' = 0 \<and> currentY d' = 0 \<and> columnWidth d' = 0
        \<and> currentColor d' = Some ''rgb(255,255,255)''
        \<and> stack c' = [] \<and> cur c' = cur fresh_context \<and> length (calls c') = 3)"
proof -
  have h: "context2d (Debug_new canvas_game) = Some fresh_context"
    by (simp add: Debug_new_canvas)
  have w: "wf_body (game (Debug_new canvas_game)) example_body"
    by (simp add: wf_body_def example_body_def Debug_new_canvas canvas_game_sel js_mul_def fl_int)
  have n: "drawn_shapes (shapes example_body) = 3"
    by (simp add: drawn_shapes_def example_body_def)
  from renderPhysicsBody_frame[OF h w, of None]
  obtain d' c' where r: "renderPhysicsBody (Some example_body) None (Debug_new canvas_game) = Inr d'"
    "context2d d' = Some c'" "currentX d' = 0" "currentY d' = 0" "columnWidth d' = 0"
    "currentColor d' = Some (js_or None ''rgb(255,255,255)'')" "stack c' = stack fresh_context"
    "cur c' = (if sprite (Debug_new canvas_game) then (cur fresh_context)\<lparr>fillStyle := ''#ff0000''\<rparr>
               else cur fresh_context)"
    "length (calls c') = length (calls fresh_context) + drawn_shapes (shapes example_body)
       + (if sprite (Debug_new canvas_game) then 1 else 0)"
    by blast
  have "currentColor d' = Some ''rgb(255,255,255)''" "stack c' = []" "cur c' = cur fresh_context"
    "length (calls c') = 3"
    using r(6-9) by (simp_all add: js_or_def n Debug_new_canvas fresh_context_def)
  with h w r(1-5) show ?thesis by blast
qed

text \<open>
  The claim as stated fails. On a new renderer in canvas mode, whose column width is 100
  and whose colour is undefined, rendering a body with one shape of no known class leaves
  the column width 0 and the colour white; and rendering a body with a convex shape
  without vertices throws a \<^verbatim>\<open>TypeError\<close>.
\<close>

theorem renderPhysicsBody_counterexample:
  "columnWidth (Debug_new canvas_game) = 100 \<and> currentColor (Debug_new canvas_game) = None
   \<and> renderPhysicsBody
        (Some \<lparr>shapes = [OtherShape], shapeOffsets = [(0, 0)], shapeAngles = [0],
               bd_position = (0, 0), bd_angle = 0\<rparr>) None (Debug_new canvas_game)
     = Inr ((Debug_new canvas_game)\<lparr>columnWidth := 0, currentColor := Some ''rgb(255,255,255)''\<rparr>)
   \<and> renderPhysicsBody
        (Some \<lparr>shapes = [Convex []], shapeOffsets = [(0, 0)], shapeAngles = [0],
               bd_position = (0, 0), bd_angle = 0\<rparr>) None (Debug_new canvas_game)
     = Inl TypeError"
  by (simp add: Debug_new_canvas renderPhysicsBody_def Let_def js_or_def
      start_Some[of _ fresh_context] stop_Some[of _ "fresh_context\<lparr>cur := g, stack := s\<rparr>" for g s]
      num_or_0_def renderShape_def renderShapeConvex_def js_index_def polygon_path_def
      canvas_game_sel on_context_def on_context_try_def restore_def set_globalAlpha_def fresh_context_def)

section \<open>The line shape\<close>

text \<open>
  Claim C7 says that a line shape is drawn after a translation to the body position plus
  the shape's offset. \<open>renderShapeLine\<close> translates to the body position alone: with the
  body at \<open>(100, 50)\<close>, no rotation and the offset \<open>(1, 0)\<close>, which is \<open>(-20, 0)\<close> in
  screen units, a line of length 2 is stroked from \<open>(100, 50)\<close> where the claim has
  \<open>(80, 50)\<close>. \<open>renderShapeCircle\<close>, called with the same position and offset, does
  translate to \<open>(80, 50)\<close>.
\<close>

theorem renderShapeLine_ignores_offset:
  "renderShapeLine 100 50 0 2 (Some (1, 0)) (Some 0) (Debug_new canvas_game)
     = Inr ((Debug_new canvas_game)\<lparr>context2d := Some (fresh_context
         \<lparr>path := [MoveTo (1, 0, 0, 1, 100, 50) 0 0, LineTo (1, 0, 0, 1, 100, 50) 40 0, ClosePath],
          calls := [Stroke [MoveTo (1, 0, 0, 1, 100, 50) 0 0, LineTo (1, 0, 0, 1, 100, 50) 40 0, ClosePath]
                      ((cur fresh_context)\<lparr>transform := (1, 0, 0, 1, 100, 50), lineWidth := 1/2\<rparr>)]\<rparr>)\<rparr>)
   \<and> renderShapeCircle 100 50 0 2 (Some (1, 0)) (Some 0) (Debug_new canvas_game)
     = Inr ((Debug_new canvas_game)\<lparr>context2d := Some (fresh_context
         \<lparr>path := [Arc (1, 0, 0, 1, 80, 50) 0 0 40 0 (js_mul Math_PI 2), ClosePath],
          calls := [Stroke [Arc (1, 0, 0, 1, 80, 50) 0 0 40 0 (js_mul Math_PI 2), ClosePath]
                      ((cur fresh_context)\<lparr>transform := (1, 0, 0, 1, 80, 50)\<rparr>)]\<rparr>)\<rparr>)"
  by (simp add: Debug_new_canvas renderShapeLine_def renderShapeCircle_def on_context_def
      on_context_try_def Let_def canvas_game_sel add_angle_def beginPath_def save_def restore_def
      translate_def rotate_ctx_def set_lineWidth_def moveTo_def lineTo_def closePath_def stroke_def
      arc_def fresh_context_def js_add_def js_mul_def fl_int)

section \<open>Emission outside a bracket\<close>

lemma calls_text [simp]:
  "calls (set_fillStyle s c) = calls c"
  "calls (fillText t x y c) = calls c @ [FillText t x y (cur c)]"
  by (simp_all add: set_fillStyle_def fillText_def split: option.splits)







section \<open>A null context\<close>

lemmas formatter_defs =
  renderSoundInfo_def renderCameraInfo_def renderPointer_def renderSpriteInputInfo_def
  renderKey_def renderInputInfo_def renderRectangle_def renderSpriteBounds_def
  renderSpriteInfo_def renderSpriteCoords_def renderLine_def renderLineInfo_def
  renderPointInfo_def renderPixel_def renderPoint_def renderCircle_def renderText_def
  renderBodyInfo_def renderPhysicsBody_def

text \<open>
  Claim C5, as the code has it. When the context is null, \<^verbatim>\<open>start\<close>, \<^verbatim>\<open>line\<close>,
  \<^verbatim>\<open>splitline\<close> and every formatter return at once, for every argument list: the state
  is unchanged, so nothing is drawn, and no exception is raised. \<open>renderSpriteBounds\<close>
  does so for a sprite that is not null; it has no test of its own and calls
  \<^verbatim>\<open>sprite.getBounds()\<close> first. \<^verbatim>\<open>stop\<close> and the four shape renderers, which the source
  documents as internal, do not test the context and throw a \<^verbatim>\<open>TypeError\<close>.
\<close>

theorem null_context_is_noop:
  assumes "context2d d = None"
  shows "start x y color cw d = d
       \<and> line t x y d = d
       \<and> splitline fs d = d
       \<and> renderSoundInfo sound x y color d = Inr d
       \<and> renderCameraInfo cam x y color d = Inr d
       \<and> renderPointer ptr hideIfUp downColor upColor color d = Inr d
       \<and> renderSpriteInputInfo spr x y color d = Inr d
       \<and> renderKey k x y color d = Inr d
       \<and> renderInputInfo x y color d = Inr d
       \<and> renderSpriteBounds (Some s) color filled d = Inr d
       \<and> renderSpriteInfo spr x y color d = Inr d
       \<and> renderSpriteCoords spr x y color d = Inr d
       \<and> renderLine gl color d = Inr d
       \<and> renderLineInfo gl x y color d = Inr d
       \<and> renderPointInfo pnt x y color d = Inr d
       \<and> renderPixel px py color d = Inr d
       \<and> renderPoint pnt color d = Inr d
       \<and> renderRectangle rect color filled d = Inr d
       \<and> renderCircle circ color d = Inr d
       \<and> renderText t px py color fnt d = Inr d
       \<and> renderBodyInfo spr x y color d = Inr d
       \<and> renderPhysicsBody body color d = Inr d
       \<and> stop d = Inl TypeError
       \<and> renderSpriteBounds None color filled d = Inl TypeError
       \<and> renderShapeRectangle px py bodyAngle w h points offset angle d = Inl TypeError
       \<and> renderShapeLine px py bodyAngle len offset angle d = Inl TypeError
       \<and> renderShapeConvex px py bodyAngle points offset angle d = Inl TypeError
       \<and> renderShapeCircle px py bodyAngle radius offset angle d = Inl TypeError"
  using assms
  by (simp add: start_None line_def splitline_def formatter_defs stop_None
      shape_renderers_null_context)

theorem null_context_is_noop_witness:
  "context2d (Debug_new contextless_game) = None
   \<and> start (Some 10) (Some 20) None None (Debug_new contextless_game) = Debug_new contextless_game
   \<and> line [Str ''a''] None None (Debug_new contextless_game) = Debug_new contextless_game
   \<and> splitline [[Str ''a''], [Str ''b'']] (Debug_new contextless_game) = Debug_new contextless_game
   \<and> renderCameraInfo None None None None (Debug_new contextless_game) = Inr (Debug_new contextless_game)
   \<and> renderText [Str ''a''] 1 2 None None (Debug_new contextless_game) = Inr (Debug_new contextless_game)
   \<and> renderPhysicsBody (Some example_body) None (Debug_new contextless_game)
       = Inr (Debug_new contextless_game)
   \<and> stop (Debug_new contextless_game) = Inl TypeError
   \<and> renderShapeLine 0 0 0 1 None None (Debug_new contextless_game) = Inl TypeError"
proof -
  have h: "context2d (Debug_new contextless_game) = None"
    by (simp add: Debug_new_def contextless_game_def canvas_game_def)
  show ?thesis
    using h null_context_is_noop[OF h, where x="Some 10" and y="Some 20" and color=None and cw=None]
      null_context_is_noop[OF h, where x=None and y=None and color=None and t="[Str ''a'']"
        and fs="[[Str ''a''], [Str ''b'']]" and cam=None and px=1 and py=2 and fnt=None
        and body="Some example_body"]
      null_context_is_noop[OF h, where px=0 and py=0 and bodyAngle=0 and len=1 and offset=None
        and angle=None]
    by simp
qed

text \<open>
  The claim as stated fails for \<^verbatim>\<open>stop\<close>, which has no test at its top: on a renderer in
  canvas mode whose host has no context, \<^verbatim>\<open>stop()\<close> throws a \<^verbatim>\<open>TypeError\<close>.
\<close>

theorem stop_null_context_counterexample:
  "context2d (Debug_new contextless_game) = None
   \<and> stop (Debug_new contextless_game) = Inl TypeError"
  by (simp add: Debug_new_def contextless_game_def canvas_game_def stop_def)

section \<open>A null snapshot\<close>

text \<open>
  Claim C6, as the code has it. \<open>renderPointer\<close> is the one formatter that tests its
  snapshot: with a null (or undefined) pointer it is a no-op that raises nothing, in every
  state, as it is when the context is null. The other formatters that take a snapshot do
  not test it. On a non-null context, a null snapshot makes them throw a \<^verbatim>\<open>TypeError\<close>
  when they first read a field of it. On a null context they return at their test of the
  context and are no-ops whatever the snapshot is, except \<open>renderSpriteBounds\<close>: it has
  no test of the context, calls \<^verbatim>\<open>sprite.getBounds()\<close> first and throws a
  \<^verbatim>\<open>TypeError\<close> for a null sprite on a null context too.
\<close>

theorem null_snapshot:
  assumes "context2d d = Some c" and "context2d d0 = None"
  shows "renderPointer None hideIfUp downColor upColor color d = Inr d
       \<and> renderPointer None hideIfUp downColor upColor color d0 = Inr d0
       \<and> renderSoundInfo None x y color d = Inl TypeError
       \<and> renderCameraInfo None x y color d = Inl TypeError
       \<and> renderSpriteInputInfo None x y color d = Inl TypeError
       \<and> renderKey None x y color d = Inl TypeError
       \<and> renderSpriteBounds None color filled d = Inl TypeError
       \<and> renderSpriteInfo None x y color d = Inl TypeError
       \<and> renderSpriteCoords None x y color d = Inl TypeError
       \<and> renderLine None color d = Inl TypeError
       \<and> renderLineInfo None x y color d = Inl TypeError
       \<and> renderPointInfo None x y color d = Inl TypeError
       \<and> renderPoint None color d = Inl TypeError
       \<and> renderRectangle None color filled d = Inl TypeError
       \<and> renderCircle None color d = Inl TypeError
       \<and> renderBodyInfo None x y color d = Inl TypeError
       \<and> renderPhysicsBody None color d = Inl TypeError
       \<and> renderSoundInfo None x y color d0 = Inr d0
       \<and> renderCameraInfo None x y color d0 = Inr d0
       \<and> renderSpriteInputInfo None x y color d0 = Inr d0
       \<and> renderKey None x y color d0 = Inr d0
       \<and> renderSpriteInfo None x y color d0 = Inr d0
       \<and> renderSpriteCoords None x y color d0 = Inr d0
       \<and> renderLine None color d0 = Inr d0
       \<and> renderLineInfo None x y color d0 = Inr d0
       \<and> renderPointInfo None x y color d0 = Inr d0
       \<and> renderPoint None color d0 = Inr d0
       \<and> renderRectangle None color filled d0 = Inr d0
       \<and> renderCircle None color d0 = Inr d0
       \<and> renderBodyInfo None x y color d0 = Inr d0
       \<and> renderPhysicsBody None color d0 = Inr d0
       \<and> renderSpriteBounds None color filled d0 = Inl TypeError"
  using assms
  by (simp add: formatter_defs Let_def)

theorem null_snapshot_witness:
  "context2d (Debug_new canvas_game) = Some fresh_context
   \<and> context2d (Debug_new contextless_game) = None
   \<and> renderPointer None None None None None (Debug_new canvas_game) = Inr (Debug_new canvas_game)
   \<and> renderPointer None None None None None (Debug_new contextless_game)
       = Inr (Debug_new contextless_game)
   \<and> renderSoundInfo None (Some 10) (Some 20) None (Debug_new canvas_game) = Inl TypeError
   \<and> renderCircle None None (Debug_new canvas_game) = Inl TypeError
   \<and> renderSoundInfo None (Some 10) (Some 20) None (Debug_new contextless_game)
       = Inr (Debug_new contextless_game)
   \<and> renderSpriteBounds None None None (Debug_new contextless_game) = Inl TypeError"
proof -
  have h: "context2d (Debug_new canvas_game) = Some fresh_context"
    by (simp add: Debug_new_canvas)
  have n: "context2d (Debug_new contextless_game) = None"
    by (simp add: Debug_new_def contextless_game_def canvas_game_def)
  show ?thesis
    using h n null_snapshot[OF h n, where hideIfUp=None and downColor=None and upColor=None
        and color=None and x="Some 10" and y="Some 20" and filled=None]
    by simp
qed

text \<open>
  The claim as stated fails for \<open>renderSoundInfo\<close>: on a new renderer in canvas mode,
  \<^verbatim>\<open>renderSoundInfo(null, 10, 20)\<close> throws a \<^verbatim>\<open>TypeError\<close>.
\<close>

theorem null_sound_counterexample:
  "context2d (Debug_new canvas_game) = Some fresh_context
   \<and> renderSoundInfo None (Some 10) (Some 20) None (Debug_new canvas_game) = Inl TypeError"
  by (simp add: Debug_new_canvas renderSoundInfo_def Let_def)

end
